theory Spec2Isabelle
  imports Main
begin

section \<open>The world the transcriber runs in\<close>

text \<open>
  \<^verbatim>\<open>video_transcriber.py\<close> is sequential orchestration of three libraries (moviepy, pydub,
  whisper) over the file system. The model threads an explicit \<open>world\<close> through every
  function: the regular files with their contents, the directories, and what has been
  printed. Everything a library decides (whether a video decodes, what a model hears,
  whether the operating system refuses a write or a removal) is a field of the
  environment \<open>env\<close>; the theorems hold for every environment. A library call is a
  function of its arguments: of the contents of the file it reads, or of the path it
  writes, removes or creates.

  A Python exception of class \<open>Exception\<close> is a value \<open>Exception message\<close>. A function
  that may let one escape returns \<open>exn + 'a\<close>; an operation that returns nothing returns
  \<open>exn option\<close> (\<open>None\<close>: it completed). \<open>KeyboardInterrupt\<close> and other
  \<open>BaseException\<close>s, which \<^verbatim>\<open>except Exception\<close> does not catch, are outside the model.
\<close>

type_synonym path = string
type_synonym bytes = string

datatype exn = Exception string

text \<open>
  One constructor for each \<^verbatim>\<open>print\<close> of the four functions below the entry point, in
  source order; the arguments are the values the f-string interpolates.
\<close>

datatype msg =
    AudioExtracted path            \<comment> \<open>line 14\<close>
  | ExtractError exn               \<comment> \<open>line 17\<close>
  | LoadingModel string            \<comment> \<open>lines 27 and 54\<close>
  | TranscribingAudio path         \<comment> \<open>line 29\<close>
  | TranscribeError exn            \<comment> \<open>line 33\<close>
  | TranscribingChunk nat nat path \<comment> \<open>line 59: i+1, len(chunks), chunk_filename\<close>
  | ChunkDone nat                  \<comment> \<open>line 65\<close>
  | ChunkDeleted path              \<comment> \<open>line 70\<close>
  | ChunkDeleteWarning exn         \<comment> \<open>line 72\<close>
  | SegmentError exn               \<comment> \<open>line 76\<close>
  | VideoMissing path              \<comment> \<open>line 98\<close>
  | Processing path                \<comment> \<open>line 106\<close>
  | OutputWillBe path              \<comment> \<open>line 107\<close>
  | ExtractFailed                  \<comment> \<open>line 111\<close>
  | UsingSegmentation              \<comment> \<open>line 118\<close>
  | UsingDirect                    \<comment> \<open>line 127\<close>
  | TranscriptionDone              \<comment> \<open>line 132\<close>
  | PreviewHeader                  \<comment> \<open>line 133\<close>
  | Preview string                 \<comment> \<open>line 134\<close>
  | Saved path                     \<comment> \<open>line 139\<close>
  | SaveError exn                  \<comment> \<open>line 141\<close>
  | TranscriptionFailed            \<comment> \<open>line 144\<close>
  | TempAudioDeleted path          \<comment> \<open>line 151\<close>
  | ChunkDirDeleted path           \<comment> \<open>line 159\<close>
  | CleanupWarning exn             \<comment> \<open>line 161\<close>

record world =
  files :: "path \<rightharpoonup> bytes"
  dirs :: "path set"
  stdout :: "msg list"

record env =
  decode_video :: "bytes \<Rightarrow> exn + bytes"
    \<comment> \<open>\<^verbatim>\<open>VideoFileClip(path).audio\<close>, encoded: the audio track of a video, or the error\<close>
  from_file :: "bytes \<Rightarrow> exn + bytes"
    \<comment> \<open>\<^verbatim>\<open>AudioSegment.from_file\<close>\<close>
  split_on_silence :: "bytes \<Rightarrow> int \<Rightarrow> int \<Rightarrow> int \<Rightarrow> exn + bytes list"
    \<comment> \<open>audio, \<^verbatim>\<open>min_silence_len\<close>, \<^verbatim>\<open>silence_thresh\<close>, \<^verbatim>\<open>keep_silence\<close>\<close>
  load_model :: "string \<Rightarrow> exn option"
    \<comment> \<open>\<^verbatim>\<open>whisper.load_model\<close>: the error it raises for this model name, if any\<close>
  transcribe :: "string \<Rightarrow> bytes \<Rightarrow> exn + string"
    \<comment> \<open>\<^verbatim>\<open>model.transcribe(file)["text"]\<close> for a model name and the file's contents\<close>
  write_err :: "path \<Rightarrow> exn option"
    \<comment> \<open>the error of opening this path for writing, if any\<close>
  makedirs_err :: "path \<Rightarrow> exn option"
  remove_err :: "path \<Rightarrow> exn option"
  rmtree_err :: "path \<Rightarrow> exn option"

definition py_print :: "msg \<Rightarrow> world \<Rightarrow> world" where
  "py_print m w = w\<lparr>stdout := stdout w @ [m]\<rparr>"

subsection \<open>The library calls\<close>

text \<open>
  \<^verbatim>\<open>os.path\<close> is the POSIX flavour of Python's standard library (\<^verbatim>\<open>posixpath\<close>):
  the separator is \<open>/\<close>. \<open>rfind\<close> is \<^verbatim>\<open>str.rfind\<close> for one character: the last index,
  or \<open>-1\<close>.
\<close>

definition rfind :: "string \<Rightarrow> char \<Rightarrow> int" where
  "rfind p c =
     (if c \<in> set p
      then int (length p) - 1 - int (length (takeWhile (\<lambda>x. x \<noteq> c) (rev p)))
      else - 1)"

definition os_path_basename :: "path \<Rightarrow> path" where
  "os_path_basename p = drop (nat (rfind p (CHR ''/'') + 1)) p"

text \<open>
  \<^verbatim>\<open>os.path.splitext\<close>: split at the last dot, unless that dot is not after the last
  separator or only dots stand between the separator and it (\<^verbatim>\<open>.bashrc\<close> has no
  extension).
\<close>

definition os_path_splitext :: "path \<Rightarrow> path \<times> string" where
  "os_path_splitext p =
     (let sepIndex = rfind p (CHR ''/'');
          dotIndex = rfind p (CHR ''.'')
      in if dotIndex > sepIndex \<and>
            list_ex (\<lambda>c. c \<noteq> CHR ''.'')
              (take (nat (dotIndex - (sepIndex + 1))) (drop (nat (sepIndex + 1)) p))
         then (take (nat dotIndex) p, drop (nat dotIndex) p)
         else (p, []))"

definition os_path_join :: "path \<Rightarrow> path \<Rightarrow> path" where
  "os_path_join a b =
     (if take 1 b = ''/'' then b
      else if a = [] \<or> last a = CHR ''/'' then a @ b
      else a @ ''/'' @ b)"

definition os_path_exists :: "world \<Rightarrow> path \<Rightarrow> bool" where
  "os_path_exists w p = (files w p \<noteq> None \<or> p \<in> dirs w)"

text \<open>
  \<^verbatim>\<open>os.makedirs\<close> (without \<^verbatim>\<open>exist_ok\<close>): an existing path is an error. Of the
  directories it creates the model records the last one, which is the only one for the
  bare name the orchestrator passes.
\<close>

definition os_makedirs :: "env \<Rightarrow> path \<Rightarrow> world \<Rightarrow> exn option \<times> world" where
  "os_makedirs env p w =
     (if os_path_exists w p then (Some (Exception ''FileExistsError''), w)
      else case makedirs_err env p of
             Some e \<Rightarrow> (Some e, w)
           | None \<Rightarrow> (None, w\<lparr>dirs := insert p (dirs w)\<rparr>))"

text \<open>
  Writing a whole file (\<^verbatim>\<open>open(p, "w")\<close> and \<^verbatim>\<open>write\<close>, \<^verbatim>\<open>write_audiofile\<close>,
  \<^verbatim>\<open>export\<close>): the old contents, if any, are replaced.
\<close>

definition write_file :: "env \<Rightarrow> path \<Rightarrow> bytes \<Rightarrow> world \<Rightarrow> exn option \<times> world" where
  "write_file env p data w =
     (if p \<in> dirs w then (Some (Exception ''IsADirectoryError''), w)
      else case write_err env p of
             Some e \<Rightarrow> (Some e, w)
           | None \<Rightarrow> (None, w\<lparr>files := (files w)(p \<mapsto> data)\<rparr>))"

definition os_remove :: "env \<Rightarrow> path \<Rightarrow> world \<Rightarrow> exn option \<times> world" where
  "os_remove env p w =
     (case files w p of
        None \<Rightarrow> (Some (Exception ''FileNotFoundError''), w)
      | Some _ \<Rightarrow>
          (case remove_err env p of
             Some e \<Rightarrow> (Some e, w)
           | None \<Rightarrow> (None, w\<lparr>files := (files w)(p := None)\<rparr>)))"

definition is_under :: "path \<Rightarrow> path \<Rightarrow> bool" where
  "is_under d p = (take (length d + 1) p = d @ ''/'')"

definition shutil_rmtree :: "env \<Rightarrow> path \<Rightarrow> world \<Rightarrow> exn option \<times> world" where
  "shutil_rmtree env p w =
     (if p \<notin> dirs w then (Some (Exception ''NotADirectoryError''), w)
      else case rmtree_err env p of
             Some e \<Rightarrow> (Some e, w)
           | None \<Rightarrow>
               (None, w\<lparr>files := (\<lambda>q. if is_under p q then None else files w q),
                         dirs := Set.filter (\<lambda>q. q \<noteq> p \<and> \<not> is_under p q) (dirs w)\<rparr>))"

text \<open>\<^verbatim>\<open>model.transcribe(path)["text"]\<close> reads the file at the path.\<close>

definition model_transcribe :: "env \<Rightarrow> string \<Rightarrow> path \<Rightarrow> world \<Rightarrow> exn + string" where
  "model_transcribe env model_name p w =
     (case files w p of
        None \<Rightarrow> Inl (Exception ''FileNotFoundError'')
      | Some a \<Rightarrow> transcribe env model_name a)"

text \<open>\<^verbatim>\<open>sep.join(xs)\<close> and the decimal digits of \<^verbatim>\<open>f"{i}"\<close>.\<close>

fun str_join :: "string \<Rightarrow> string list \<Rightarrow> string" where
  "str_join sep [] = []"
| "str_join sep [x] = x"
| "str_join sep (x # y # ys) = x @ sep @ str_join sep (y # ys)"

function str_nat :: "nat \<Rightarrow> string" where
  "str_nat n =
     (if n < 10 then [''0123456789'' ! n]
      else str_nat (n div 10) @ [''0123456789'' ! (n mod 10)])"
  by pat_completeness auto
termination
  by (relation "measure id") auto

declare str_nat.simps [simp del]

section \<open>The program\<close>

subsection \<open>\<^verbatim>\<open>extract_audio_from_video\<close> (lines 7 to 18)\<close>

definition extract_audio_from_video :: "env \<Rightarrow> path \<Rightarrow> path \<Rightarrow> world \<Rightarrow> bool \<times> world" where
  "extract_audio_from_video env video_path audio_output_path w =
     (case files w video_path of
        None \<Rightarrow> (False, py_print (ExtractError (Exception ''OSError'')) w)
      | Some video \<Rightarrow>
          (case decode_video env video of
             Inl e \<Rightarrow> (False, py_print (ExtractError e) w)
           | Inr audio \<Rightarrow>
               (case write_file env audio_output_path audio w of
                  (Some e, w1) \<Rightarrow> (False, py_print (ExtractError e) w1)
                | (None, w1) \<Rightarrow> (True, py_print (AudioExtracted audio_output_path) w1))))"

subsection \<open>\<^verbatim>\<open>transcribe_audio_with_whisper\<close> (lines 20 to 34)\<close>

definition transcribe_audio_with_whisper ::
  "env \<Rightarrow> path \<Rightarrow> string \<Rightarrow> world \<Rightarrow> string option \<times> world" where
  "transcribe_audio_with_whisper env audio_path model_name w =
     (let w1 = py_print (LoadingModel model_name) w in
      case load_model env model_name of
        Some e \<Rightarrow> (None, py_print (TranscribeError e) w1)
      | None \<Rightarrow>
          (let w2 = py_print (TranscribingAudio audio_path) w1 in
           case model_transcribe env model_name audio_path w2 of
             Inl e \<Rightarrow> (None, py_print (TranscribeError e) w2)
           | Inr text \<Rightarrow> (Some text, w2)))"

subsection \<open>\<^verbatim>\<open>split_and_transcribe_audio\<close> (lines 36 to 77)\<close>

text \<open>The defaults of the signature on line 36.\<close>

definition default_output_dir :: path where
  "default_output_dir = ''audio_chunks''"

definition default_min_silence_len :: int where
  "default_min_silence_len = 500"

definition default_silence_thresh :: int where
  "default_silence_thresh = - 40"

definition default_model_name :: string where
  "default_model_name = ''base''"

definition chunk_filename :: "path \<Rightarrow> nat \<Rightarrow> path" where
  "chunk_filename output_dir i = os_path_join output_dir (''chunk_'' @ str_nat i @ ''.wav'')"

text \<open>
  The deletion of lines 68 to 72, with its own \<^verbatim>\<open>try\<close>: whatever \<^verbatim>\<open>os.remove\<close> raises
  is printed and dropped.
\<close>

definition delete_chunk :: "env \<Rightarrow> path \<Rightarrow> world \<Rightarrow> world" where
  "delete_chunk env chunk_file w =
     (case os_remove env chunk_file w of
        (None, w1) \<Rightarrow> py_print (ChunkDeleted chunk_file) w1
      | (Some e, w1) \<Rightarrow> py_print (ChunkDeleteWarning e) w1)"

text \<open>
  One iteration, lines 57 to 72, for the chunk with index \<open>i\<close> of \<open>n\<close>: export, transcribe,
  delete. An exception of \<^verbatim>\<open>export\<close> or \<^verbatim>\<open>transcribe\<close> leaves the iteration; otherwise
  its value is the text of line 63.
\<close>

definition process_chunk ::
  "env \<Rightarrow> string \<Rightarrow> path \<Rightarrow> nat \<Rightarrow> nat \<Rightarrow> bytes \<Rightarrow> world \<Rightarrow> (exn + string) \<times> world" where
  "process_chunk env model_name output_dir n i chunk w =
     (case write_file env (chunk_filename output_dir i) chunk w of
        (Some e, w1) \<Rightarrow> (Inl e, w1)
      | (None, w1) \<Rightarrow>
          (let w2 = py_print (TranscribingChunk (i + 1) n (chunk_filename output_dir i)) w1 in
           case model_transcribe env model_name (chunk_filename output_dir i) w2 of
             Inl e \<Rightarrow> (Inl e, w2)
           | Inr text \<Rightarrow>
               (Inr text, delete_chunk env (chunk_filename output_dir i)
                            (py_print (ChunkDone (i + 1)) w2))))"

text \<open>
  The loop of lines 56 to 72 over \<^verbatim>\<open>enumerate(chunks)\<close>: \<open>n\<close> is \<^verbatim>\<open>len(chunks)\<close>, \<open>i\<close> the
  index of the first chunk of the list, \<open>full_text\<close> the texts so far. An exception
  in an iteration leaves the loop.
\<close>

fun transcribe_chunks ::
  "env \<Rightarrow> string \<Rightarrow> path \<Rightarrow> nat \<Rightarrow> nat \<Rightarrow> bytes list \<Rightarrow> string list \<Rightarrow> world
     \<Rightarrow> (exn + string list) \<times> world" where
  "transcribe_chunks env model_name output_dir n i [] full_text w = (Inr full_text, w)"
| "transcribe_chunks env model_name output_dir n i (chunk # rest) full_text w =
     (case process_chunk env model_name output_dir n i chunk w of
        (Inl e, w1) \<Rightarrow> (Inl e, w1)
      | (Inr text, w1) \<Rightarrow>
          transcribe_chunks env model_name output_dir n (i + 1) rest (full_text @ [text]) w1)"

text \<open>The body of the \<^verbatim>\<open>try\<close> of lines 44 to 74.\<close>

definition split_and_transcribe_try ::
  "env \<Rightarrow> path \<Rightarrow> path \<Rightarrow> int \<Rightarrow> int \<Rightarrow> string \<Rightarrow> world \<Rightarrow> (exn + string) \<times> world" where
  "split_and_transcribe_try env audio_path output_dir min_silence_len silence_thresh model_name w =
     (case files w audio_path of
        None \<Rightarrow> (Inl (Exception ''FileNotFoundError''), w)
      | Some raw \<Rightarrow>
          (case from_file env raw of
             Inl e \<Rightarrow> (Inl e, w)
           | Inr audio \<Rightarrow>
               (case split_on_silence env audio min_silence_len silence_thresh 200 of
                  Inl e \<Rightarrow> (Inl e, w)
                | Inr chunks \<Rightarrow>
                    (case load_model env model_name of
                       Some e \<Rightarrow> (Inl e, w)
                     | None \<Rightarrow>
                         (case transcribe_chunks env model_name output_dir (length chunks) 0
                                 chunks [] (py_print (LoadingModel model_name) w) of
                            (Inl e, w1) \<Rightarrow> (Inl e, w1)
                          | (Inr full_text, w1) \<Rightarrow> (Inr (str_join '' '' full_text), w1))))))"

text \<open>Lines 41 and 42, before the \<^verbatim>\<open>try\<close>: the chunk directory is created if nothing exists there.\<close>

definition ensure_output_dir :: "env \<Rightarrow> path \<Rightarrow> world \<Rightarrow> exn option \<times> world" where
  "ensure_output_dir env output_dir w =
     (if \<not> os_path_exists w output_dir then os_makedirs env output_dir w else (None, w))"

text \<open>
  The whole function: an exception of \<^verbatim>\<open>os.makedirs\<close> leaves it; the \<^verbatim>\<open>except\<close> of lines 75
  to 77 prints an exception of the body of the \<^verbatim>\<open>try\<close> and returns \<^verbatim>\<open>None\<close>.
\<close>

definition split_and_transcribe_audio ::
  "env \<Rightarrow> path \<Rightarrow> path \<Rightarrow> int \<Rightarrow> int \<Rightarrow> string \<Rightarrow> world \<Rightarrow> (exn + string option) \<times> world" where
  "split_and_transcribe_audio env audio_path output_dir min_silence_len silence_thresh model_name w =
     (case ensure_output_dir env output_dir w of
        (Some e, w0) \<Rightarrow> (Inl e, w0)
      | (None, w0) \<Rightarrow>
          (case split_and_transcribe_try env audio_path output_dir min_silence_len silence_thresh
                  model_name w0 of
             (Inl e, w1) \<Rightarrow> (Inr None, py_print (SegmentError e) w1)
           | (Inr text, w1) \<Rightarrow> (Inr (Some text), w1)))"

subsection \<open>\<^verbatim>\<open>get_filename_without_extension\<close> (lines 79 to 85)\<close>

definition get_filename_without_extension :: "path \<Rightarrow> string" where
  "get_filename_without_extension file_path =
     (let base_name = os_path_basename file_path;
          filename_without_ext = fst (os_path_splitext base_name)
      in filename_without_ext)"

subsection \<open>\<^verbatim>\<open>process_video_to_text\<close> (lines 87 to 163)\<close>

text \<open>The three names of lines 103, 104 and 121 (again on line 155).\<close>

definition audio_file_of :: "string \<Rightarrow> path" where
  "audio_file_of video_name = video_name @ ''_temp_audio.mp3''"

definition text_output_file_of :: "string \<Rightarrow> path" where
  "text_output_file_of video_name = video_name @ ''.txt''"

definition chunks_dir_of :: "string \<Rightarrow> path" where
  "chunks_dir_of video_name = video_name @ ''_audio_chunks''"

text \<open>The silence parameters of lines 122 and 123.\<close>

definition segmented_min_silence_len :: int where
  "segmented_min_silence_len = 700"

definition segmented_silence_thresh :: int where
  "segmented_silence_thresh = - 35"

text \<open>Step 2, lines 115 to 128: the transcriber the flag selects.\<close>

definition transcribe_step ::
  "env \<Rightarrow> string \<Rightarrow> string \<Rightarrow> bool \<Rightarrow> world \<Rightarrow> (exn + string option) \<times> world" where
  "transcribe_step env video_name model_name use_segmentation w =
     (if use_segmentation
      then split_and_transcribe_audio env (audio_file_of video_name) (chunks_dir_of video_name)
             segmented_min_silence_len segmented_silence_thresh model_name
             (py_print UsingSegmentation w)
      else case transcribe_audio_with_whisper env (audio_file_of video_name) model_name
                  (py_print UsingDirect w) of
             (transcribed_text, w1) \<Rightarrow> (Inr transcribed_text, w1))"

text \<open>Step 4, the body of the \<^verbatim>\<open>try\<close> of lines 148 to 159.\<close>

definition cleanup_try :: "env \<Rightarrow> string \<Rightarrow> bool \<Rightarrow> world \<Rightarrow> exn option \<times> world" where
  "cleanup_try env video_name use_segmentation w =
     (case (if os_path_exists w (audio_file_of video_name)
            then (case os_remove env (audio_file_of video_name) w of
                    (Some e, w1) \<Rightarrow> (Some e, w1)
                  | (None, w1) \<Rightarrow> (None, py_print (TempAudioDeleted (audio_file_of video_name)) w1))
            else (None, w)) of
        (Some e, w1) \<Rightarrow> (Some e, w1)
      | (None, w1) \<Rightarrow>
          (if use_segmentation
           then (let chunks_dir = chunks_dir_of video_name in
                 if os_path_exists w1 chunks_dir
                 then (case shutil_rmtree env chunks_dir w1 of
                         (Some e, w2) \<Rightarrow> (Some e, w2)
                       | (None, w2) \<Rightarrow> (None, py_print (ChunkDirDeleted chunks_dir) w2))
                 else (None, w1))
           else (None, w1)))"

definition cleanup :: "env \<Rightarrow> string \<Rightarrow> bool \<Rightarrow> world \<Rightarrow> world" where
  "cleanup env video_name use_segmentation w =
     (case cleanup_try env video_name use_segmentation w of
        (Some e, w1) \<Rightarrow> py_print (CleanupWarning e) w1
      | (None, w1) \<Rightarrow> w1)"

text \<open>
  Steps 3 and 4, lines 131 to 163. \<^verbatim>\<open>if transcribed_text:\<close> is false for \<^verbatim>\<open>None\<close> and
  for the empty string; both \<^verbatim>\<open>return False\<close> (lines 142 and 145) come before step 4.
\<close>

definition save_and_cleanup ::
  "env \<Rightarrow> string \<Rightarrow> bool \<Rightarrow> string option \<Rightarrow> world \<Rightarrow> bool \<times> world" where
  "save_and_cleanup env video_name use_segmentation transcribed_text w =
     (case transcribed_text of
        None \<Rightarrow> (False, py_print TranscriptionFailed w)
      | Some text \<Rightarrow>
          if text = [] then (False, py_print TranscriptionFailed w)
          else
            (let w1 = py_print (Preview (if length text > 200 then take 200 text @ ''...'' else text))
                        (py_print PreviewHeader (py_print TranscriptionDone w)) in
             case write_file env (text_output_file_of video_name) text w1 of
               (Some e, w2) \<Rightarrow> (False, py_print (SaveError e) w2)
             | (None, w2) \<Rightarrow>
                 (True, cleanup env video_name use_segmentation
                          (py_print (Saved (text_output_file_of video_name)) w2))))"

text \<open>Step 1, lines 106 to 110: the two announcements and the extraction.\<close>

definition extract_step :: "env \<Rightarrow> path \<Rightarrow> string \<Rightarrow> world \<Rightarrow> bool \<times> world" where
  "extract_step env video_path video_name w =
     extract_audio_from_video env video_path (audio_file_of video_name)
       (py_print (OutputWillBe (text_output_file_of video_name))
          (py_print (Processing video_path) w))"

definition process_video_to_text ::
  "env \<Rightarrow> path \<Rightarrow> string \<Rightarrow> bool \<Rightarrow> world \<Rightarrow> (exn + bool) \<times> world" where
  "process_video_to_text env video_path model_name use_segmentation w =
     (if \<not> os_path_exists w video_path
      then (Inr False, py_print (VideoMissing video_path) w)
      else
        (let video_name = get_filename_without_extension video_path
         in case extract_step env video_path video_name w of
              (False, w2) \<Rightarrow> (Inr False, py_print ExtractFailed w2)
            | (True, w2) \<Rightarrow>
                (case transcribe_step env video_name model_name use_segmentation w2 of
                   (Inl e, w3) \<Rightarrow> (Inl e, w3)
                 | (Inr transcribed_text, w3) \<Rightarrow>
                     (case save_and_cleanup env video_name use_segmentation transcribed_text w3 of
                        (ok, w4) \<Rightarrow> (Inr ok, w4)))))"

section \<open>Concrete runs\<close>

text \<open>
  An environment in which every library call succeeds: whisper knows its five model
  names, the audio track of a video \<open>v\<close> is \<open>mp3:v\<close>, silence splits every audio into
  the two chunks \<open>hello\<close> and \<open>world\<close>, and a model hears in a file what the file
  holds. The variants change one field each.
\<close>

definition env_ok :: env where
  "env_ok =
     \<lparr>decode_video = (\<lambda>v. Inr (''mp3:'' @ v)),
      from_file = (\<lambda>a. Inr a),
      split_on_silence = (\<lambda>a msl thr keep. Inr [''hello'', ''world'']),
      load_model = (\<lambda>m. if m \<in> set [''tiny'', ''base'', ''small'', ''medium'', ''large'']
                          then None else Some (Exception ''RuntimeError'')),
      transcribe = (\<lambda>m a. Inr a),
      write_err = (\<lambda>p. None),
      makedirs_err = (\<lambda>p. None),
      remove_err = (\<lambda>p. None),
      rmtree_err = (\<lambda>p. None)\<rparr>"

definition env_remove_refused :: env where
  "env_remove_refused = env_ok\<lparr>remove_err := (\<lambda>p. Some (Exception ''PermissionError''))\<rparr>"

definition env_makedirs_refused :: env where
  "env_makedirs_refused = env_ok\<lparr>makedirs_err := (\<lambda>p. Some (Exception ''PermissionError''))\<rparr>"

definition env_txt_refused :: env where
  "env_txt_refused =
     env_ok\<lparr>write_err := (\<lambda>p. if p = ''clip.txt'' then Some (Exception ''PermissionError'')
                                else None)\<rparr>"

definition env_no_chunks :: env where
  "env_no_chunks = env_ok\<lparr>split_on_silence := (\<lambda>a msl thr keep. Inr [])\<rparr>"

definition env_second_chunk_fails :: env where
  "env_second_chunk_fails =
     env_ok\<lparr>transcribe := (\<lambda>m a. if a = ''world'' then Inl (Exception ''RuntimeError'') else Inr a)\<rparr>"

text \<open>
  A working directory with one video in a subdirectory and an old transcript, and the
  same directory once the audio of the video has been extracted.
\<close>

definition world0 :: world where
  "world0 =
     \<lparr>files = [''videos/clip.mp4'' \<mapsto> ''VIDEO'', ''clip.txt'' \<mapsto> ''old text''],
      dirs = {''videos''},
      stdout = []\<rparr>"

definition world_audio :: world where
  "world_audio = world0\<lparr>files := (files world0)(''clip_temp_audio.mp3'' \<mapsto> ''mp3:VIDEO'')\<rparr>"

section \<open>Properties of the steps\<close>

subsection \<open>One iteration of the chunk loop\<close>

lemma py_print_simps [simp]:
  "files (py_print m w) = files w"
  "dirs (py_print m w) = dirs w"
  "stdout (py_print m w) = stdout w @ [m]"
  by (simp_all add: py_print_def)

lemma delete_chunk_dirs [simp]: "dirs (delete_chunk env p w) = dirs w"
  by (auto simp: delete_chunk_def os_remove_def split: option.splits)

text \<open>What one successful iteration did.\<close>

lemma process_chunk_Inr:
  assumes "process_chunk env model_name output_dir n i chunk w = (Inr tx, w1)"
  shows "transcribe env model_name chunk = Inr tx"
    and "write_err env (chunk_filename output_dir i) = None"
    and "chunk_filename output_dir i \<notin> dirs w"
    and "dirs w1 = dirs w"
    and "q \<noteq> chunk_filename output_dir i \<Longrightarrow> files w1 q = files w q"
    and "remove_err env (chunk_filename output_dir i) = None \<Longrightarrow> files w1 (chunk_filename output_dir i) = None"
    and "remove_err env (chunk_filename output_dir i) = Some e \<Longrightarrow>
           files w1 (chunk_filename output_dir i) = Some chunk"
    and "stdout w1 = stdout w @
           [TranscribingChunk (i + 1) n (chunk_filename output_dir i), ChunkDone (i + 1),
            case remove_err env (chunk_filename output_dir i) of
              None \<Rightarrow> ChunkDeleted (chunk_filename output_dir i)
            | Some e \<Rightarrow> ChunkDeleteWarning e]"
  using assms
  by (auto simp: process_chunk_def write_file_def model_transcribe_def Let_def
      delete_chunk_def os_remove_def
      split: if_splits option.splits sum.splits)

lemma process_chunk_Inl:
  assumes "process_chunk env model_name output_dir n i chunk w = (Inl e, w1)"
  shows "dirs w1 = dirs w"
    and "q \<noteq> chunk_filename output_dir i \<Longrightarrow> files w1 q = files w q"
    and "stdout w1 = stdout w \<or>
         stdout w1 = stdout w @ [TranscribingChunk (i + 1) n (chunk_filename output_dir i)]"
  using assms
  by (auto simp: process_chunk_def write_file_def model_transcribe_def Let_def
      split: if_splits option.splits sum.splits)

lemma process_chunk_transcribe_raises:
  assumes "transcribe env model_name chunk = Inl e"
  shows "\<exists>e'. fst (process_chunk env model_name output_dir n i chunk w) = Inl e'"
  using assms
  by (auto simp: process_chunk_def write_file_def model_transcribe_def Let_def
      split: if_splits option.splits sum.splits)

subsection \<open>The chunk loop\<close>

lemma transcribe_chunks_dirs:
  "transcribe_chunks env model_name output_dir n i chunks full_text w = (r, w') \<Longrightarrow> dirs w' = dirs w"
proof (induction chunks arbitrary: i full_text w)
  case Nil
  then show ?case by simp
next
  case (Cons c cs)
  then show ?case
    by (auto split: prod.splits sum.splits dest: process_chunk_Inr(4) process_chunk_Inl(1))
qed

lemma transcribe_chunks_texts:
  "transcribe_chunks env model_name output_dir n i chunks full_text w = (Inr r, w') \<Longrightarrow>
   \<exists>texts. map (transcribe env model_name) chunks = map Inr texts \<and> r = full_text @ texts"
proof (induction chunks arbitrary: i full_text w)
  case Nil
  then show ?case by simp
next
  case (Cons c cs)
  from Cons.prems obtain w1 tx where
    step: "process_chunk env model_name output_dir n i c w = (Inr tx, w1)" and
    rest: "transcribe_chunks env model_name output_dir n (i + 1) cs (full_text @ [tx]) w1 = (Inr r, w')"
    by (auto split: prod.splits sum.splits)
  from Cons.IH[OF rest] obtain texts where
    "map (transcribe env model_name) cs = map Inr texts" "r = (full_text @ [tx]) @ texts"
    by blast
  with process_chunk_Inr(1)[OF step]
  have "map (transcribe env model_name) (c # cs) = map Inr (tx # texts) \<and> r = full_text @ (tx # texts)"
    by simp
  then show ?case by blast
qed


lemma transcribe_chunks_length:
  assumes "transcribe_chunks env model_name output_dir n i chunks full_text w = (Inr r, w')"
  shows "length r = length full_text + length chunks"
proof -
  from transcribe_chunks_texts[OF assms] obtain texts where
    "map (transcribe env model_name) chunks = map Inr texts" "r = full_text @ texts"
    by blast
  then show ?thesis
    by (metis length_append length_map)
qed

lemma transcribe_chunks_append:
  "transcribe_chunks env model_name output_dir n i (xs @ ys) full_text w =
     (case transcribe_chunks env model_name output_dir n i xs full_text w of
        (Inl e, w1) \<Rightarrow> (Inl e, w1)
      | (Inr ft, w1) \<Rightarrow> transcribe_chunks env model_name output_dir n (i + length xs) ys ft w1)"
  by (induction xs arbitrary: i full_text w) (auto split: prod.splits sum.splits)

text \<open>The state after the first \<open>k\<close> iterations of a loop that completes.\<close>

lemma transcribe_chunks_prefix:
  assumes run: "transcribe_chunks env model_name output_dir n i chunks full_text w = (Inr r, w')"
    and k: "k \<le> length chunks"
  shows "\<exists>wk. transcribe_chunks env model_name output_dir n i (take k chunks) full_text w
                 = (Inr (take (length full_text + k) r), wk)
             \<and> transcribe_chunks env model_name output_dir n (i + k) (drop k chunks)
                 (take (length full_text + k) r) wk = (Inr r, w')"
proof -
  obtain rk wk where pre:
    "transcribe_chunks env model_name output_dir n i (take k chunks) full_text w = (rk, wk)"
    by (cases "transcribe_chunks env model_name output_dir n i (take k chunks) full_text w")
  have whole: "transcribe_chunks env model_name output_dir n i (take k chunks @ drop k chunks) full_text w
                = (Inr r, w')"
    using run by simp
  from whole pre obtain ft where rk: "rk = Inr ft"
    and rest: "transcribe_chunks env model_name output_dir n (i + length (take k chunks))
                 (drop k chunks) ft wk = (Inr r, w')"
    unfolding transcribe_chunks_append by (cases rk) auto
  have len: "length ft = length full_text + k"
    using transcribe_chunks_length[OF pre[unfolded rk]] k by simp
  from transcribe_chunks_texts[OF rest] obtain texts where "r = ft @ texts"
    by blast
  with len have "take (length full_text + k) r = ft"
    by simp
  with pre rk rest k show ?thesis
    by (simp add: min_absorb2)
qed

lemma transcribe_chunks_keeps_gone:
  "transcribe_chunks env model_name output_dir n i chunks full_text w = (Inr r, w') \<Longrightarrow>
   remove_err env q = None \<Longrightarrow> files w q = None \<Longrightarrow> files w' q = None"
proof (induction chunks arbitrary: i full_text w)
  case Nil
  then show ?case by simp
next
  case (Cons c cs)
  from Cons.prems(1) obtain w1 tx where
    step: "process_chunk env model_name output_dir n i c w = (Inr tx, w1)" and
    rest: "transcribe_chunks env model_name output_dir n (i + 1) cs (full_text @ [tx]) w1 = (Inr r, w')"
    by (auto split: prod.splits sum.splits)
  have "files w1 q = None"
  proof (cases "q = chunk_filename output_dir i")
    case True
    with process_chunk_Inr(6)[OF step] Cons.prems(2) show ?thesis by simp
  next
    case False
    with process_chunk_Inr(5)[OF step] Cons.prems(3) show ?thesis by simp
  qed
  with Cons.IH[OF rest Cons.prems(2)] show ?case .
qed

lemma transcribe_chunks_deleted:
  "transcribe_chunks env model_name output_dir n i chunks full_text w = (Inr r, w') \<Longrightarrow>
   j < length chunks \<Longrightarrow> remove_err env (chunk_filename output_dir (i + j)) = None \<Longrightarrow>
   files w' (chunk_filename output_dir (i + j)) = None"
proof (induction chunks arbitrary: i j full_text w)
  case Nil
  then show ?case by simp
next
  case (Cons c cs)
  from Cons.prems(1) obtain w1 tx where
    step: "process_chunk env model_name output_dir n i c w = (Inr tx, w1)" and
    rest: "transcribe_chunks env model_name output_dir n (i + 1) cs (full_text @ [tx]) w1 = (Inr r, w')"
    by (auto split: prod.splits sum.splits)
  show ?case
  proof (cases j)
    case 0
    with process_chunk_Inr(6)[OF step] Cons.prems(3)
    have "files w1 (chunk_filename output_dir (i + j)) = None" by simp
    with transcribe_chunks_keeps_gone[OF rest Cons.prems(3)] show ?thesis .
  next
    case (Suc j')
    with Cons.prems have "j' < length cs"
      and "remove_err env (chunk_filename output_dir (i + 1 + j')) = None"
      by simp_all
    from Cons.IH[OF rest this] Suc show ?thesis by simp
  qed
qed


text \<open>The value of an iteration depends on the world through its directories only.\<close>

lemma process_chunk_fst:
  "fst (process_chunk env model_name output_dir n i chunk w) =
     (if chunk_filename output_dir i \<in> dirs w then Inl (Exception ''IsADirectoryError'')
      else case write_err env (chunk_filename output_dir i) of
             Some e \<Rightarrow> Inl e
           | None \<Rightarrow> transcribe env model_name chunk)"
  by (auto simp: process_chunk_def write_file_def model_transcribe_def Let_def
      split: option.splits sum.splits)

lemma process_chunk_dirs:
  "dirs (snd (process_chunk env model_name output_dir n i chunk w)) = dirs w"
  by (auto simp: process_chunk_def write_file_def model_transcribe_def Let_def
      split: option.splits sum.splits)

lemma transcribe_chunks_remove_irrelevant:
  "dirs w1 = dirs w2 \<Longrightarrow>
   fst (transcribe_chunks (env\<lparr>remove_err := r\<rparr>) model_name output_dir n i chunks full_text w1) =
   fst (transcribe_chunks env model_name output_dir n i chunks full_text w2)"
proof (induction chunks arbitrary: i full_text w1 w2)
  case Nil
  then show ?case by simp
next
  case (Cons c cs)
  let ?p1 = "process_chunk (env\<lparr>remove_err := r\<rparr>) model_name output_dir n i c w1"
  let ?p2 = "process_chunk env model_name output_dir n i c w2"
  have v: "fst ?p1 = fst ?p2"
    using Cons.prems by (simp add: process_chunk_fst split: option.splits)
  have d: "dirs (snd ?p1) = dirs (snd ?p2)"
    using Cons.prems by (simp add: process_chunk_dirs)
  show ?case
  proof (cases "fst ?p2")
    case (Inl e)
    with v show ?thesis
      by (auto split: prod.splits sum.splits)
  next
    case (Inr tx)
    with v Cons.IH[OF d, of "i + 1" "full_text @ [tx]"] show ?thesis
      by (auto split: prod.splits sum.splits)
  qed
qed

lemma transcribe_chunks_stdout_mono:
  "transcribe_chunks env model_name output_dir n i chunks full_text w = (r, w') \<Longrightarrow>
   set (stdout w) \<subseteq> set (stdout w')"
proof (induction chunks arbitrary: i full_text w)
  case Nil
  then show ?case by auto
next
  case (Cons c cs)
  show ?case
  proof (cases "process_chunk env model_name output_dir n i c w")
    case (Pair v w1)
    show ?thesis
    proof (cases v)
      case (Inl e)
      with Pair Cons.prems process_chunk_Inl(3)[of env model_name output_dir n i c w e w1]
      show ?thesis by auto
    next
      case (Inr tx)
      with Pair Cons.prems have
        rest: "transcribe_chunks env model_name output_dir n (i + 1) cs (full_text @ [tx]) w1 = (r, w')"
        by simp
      from Pair Inr process_chunk_Inr(8)[of env model_name output_dir n i c w tx w1]
      have "set (stdout w) \<subseteq> set (stdout w1)" by auto
      with Cons.IH[OF rest] show ?thesis by blast
    qed
  qed
qed

lemma transcribe_chunks_warns:
  "transcribe_chunks env model_name output_dir n i chunks full_text w = (Inr r, w') \<Longrightarrow>
   j < length chunks \<Longrightarrow> remove_err env (chunk_filename output_dir (i + j)) = Some e \<Longrightarrow>
   ChunkDeleteWarning e \<in> set (stdout w')"
proof (induction chunks arbitrary: i j full_text w)
  case Nil
  then show ?case by simp
next
  case (Cons c cs)
  from Cons.prems(1) obtain w1 tx where
    step: "process_chunk env model_name output_dir n i c w = (Inr tx, w1)" and
    rest: "transcribe_chunks env model_name output_dir n (i + 1) cs (full_text @ [tx]) w1 = (Inr r, w')"
    by (auto split: prod.splits sum.splits)
  show ?case
  proof (cases j)
    case 0
    with process_chunk_Inr(8)[OF step] Cons.prems(3)
    have "ChunkDeleteWarning e \<in> set (stdout w1)" by simp
    with transcribe_chunks_stdout_mono[OF rest] show ?thesis by blast
  next
    case (Suc j')
    with Cons.prems have "j' < length cs"
      and "remove_err env (chunk_filename output_dir (i + 1 + j')) = Some e"
      by simp_all
    from Cons.IH[OF rest this] show ?thesis .
  qed
qed

text \<open>A chunk whose transcription raises ends the loop.\<close>

lemma transcribe_chunks_raises:
  "k < length chunks \<Longrightarrow> transcribe env model_name (chunks ! k) = Inl e \<Longrightarrow>
   \<exists>e'. fst (transcribe_chunks env model_name output_dir n i chunks full_text w) = Inl e'"
proof (induction chunks arbitrary: k i full_text w)
  case Nil
  then show ?case by simp
next
  case (Cons c cs)
  show ?case
  proof (cases "fst (process_chunk env model_name output_dir n i c w)")
    case (Inl e')
    then show ?thesis by (auto split: prod.splits sum.splits)
  next
    case (Inr tx)
    then have ok: "transcribe env model_name c = Inr tx"
      by (auto simp: process_chunk_fst split: if_splits option.splits)
    with Cons.prems obtain k' where k': "k = Suc k'"
      by (cases k) auto
    with Cons.prems have "k' < length cs" "transcribe env model_name (cs ! k') = Inl e"
      by simp_all
    from Cons.IH[OF this] Inr show ?thesis
      by (auto split: prod.splits sum.splits)
  qed
qed

lemma transcribe_chunks_stops:
  "transcribe_chunks env model_name output_dir n i chunks full_text w = (r, w') \<Longrightarrow>
   k < length chunks \<Longrightarrow> transcribe env model_name (chunks ! k) = Inl e \<Longrightarrow>
   TranscribingChunk a n' f \<in> set (stdout w') \<Longrightarrow>
   TranscribingChunk a n' f \<in> set (stdout w) \<or> a \<le> i + k + 1"
proof (induction chunks arbitrary: k i full_text w)
  case Nil
  then show ?case by simp
next
  case (Cons c cs)
  show ?case
  proof (cases "process_chunk env model_name output_dir n i c w")
    case (Pair v w1)
    show ?thesis
    proof (cases v)
      case (Inl e')
      with Pair Cons.prems(1) have "w' = w1" by simp
      with Pair Inl process_chunk_Inl(3)[of env model_name output_dir n i c w e' w1] Cons.prems(4)
      show ?thesis by auto
    next
      case (Inr tx)
      with Pair Cons.prems(1) have
        rest: "transcribe_chunks env model_name output_dir n (i + 1) cs (full_text @ [tx]) w1 = (r, w')"
        by simp
      from Pair Inr have "transcribe env model_name c = Inr tx"
        using process_chunk_Inr(1) by blast
      with Cons.prems obtain k' where k': "k = Suc k'"
        by (cases k) auto
      with Cons.prems have "k' < length cs" "transcribe env model_name (cs ! k') = Inl e"
        by simp_all
      from Cons.IH[OF rest this Cons.prems(4)]
      have "TranscribingChunk a n' f \<in> set (stdout w1) \<or> a \<le> i + k + 1"
        using k' by simp
      with Pair Inr process_chunk_Inr(8)[of env model_name output_dir n i c w tx w1]
      show ?thesis by (auto split: option.splits)
    qed
  qed
qed

lemma transcribe_chunks_raising_head:
  assumes "transcribe env model_name c = Inl e"
  shows "transcribe_chunks env model_name output_dir n i (c # post) full_text w =
         transcribe_chunks env model_name output_dir n i [c] full_text w"
proof -
  from process_chunk_transcribe_raises[OF assms]
  obtain e' w1 where "process_chunk env model_name output_dir n i c w = (Inl e', w1)"
    by (metis prod.collapse)
  then show ?thesis by simp
qed

lemma transcribe_chunks_ignores_rest:
  assumes "transcribe env model_name c = Inl e"
  shows "transcribe_chunks env model_name output_dir n i (pre @ c # post) full_text w =
         transcribe_chunks env model_name output_dir n i (pre @ [c]) full_text w"
proof -
  have "transcribe_chunks env model_name output_dir n j (c # post) ft w1 =
        transcribe_chunks env model_name output_dir n j [c] ft w1" for j ft w1
    by (rule transcribe_chunks_raising_head[OF assms])
  then show ?thesis
    unfolding transcribe_chunks_append
    by (auto split: prod.splits sum.splits simp del: transcribe_chunks.simps)
qed


subsection \<open>The segmenting transcriber as a whole\<close>

lemma ensure_output_dir_keeps [simp]:
  "files (snd (ensure_output_dir env d w)) = files w"
  "stdout (snd (ensure_output_dir env d w)) = stdout w"
  by (auto simp: ensure_output_dir_def os_makedirs_def split: option.splits)

lemma ensure_output_dir_dirs:
  "dirs (snd (ensure_output_dir env d w)) = dirs w \<or>
   dirs (snd (ensure_output_dir env d w)) = insert d (dirs w)"
  by (auto simp: ensure_output_dir_def os_makedirs_def split: option.splits)

lemma ensure_output_dir_remove_irrelevant [simp]:
  "ensure_output_dir (env\<lparr>remove_err := r\<rparr>) d w = ensure_output_dir env d w"
  by (simp add: ensure_output_dir_def os_makedirs_def)

text \<open>What a run of the segmenting transcriber that returns a transcript went through.\<close>

lemma split_and_transcribe_audio_Some:
  assumes "split_and_transcribe_audio env audio_path output_dir min_silence_len silence_thresh
             model_name w = (Inr (Some t), w')"
  shows "\<exists>raw audio chunks texts.
           fst (ensure_output_dir env output_dir w) = None \<and>
           files w audio_path = Some raw \<and> from_file env raw = Inr audio \<and>
           split_on_silence env audio min_silence_len silence_thresh 200 = Inr chunks \<and>
           load_model env model_name = None \<and>
           transcribe_chunks env model_name output_dir (length chunks) 0 chunks []
             (py_print (LoadingModel model_name) (snd (ensure_output_dir env output_dir w)))
             = (Inr texts, w') \<and>
           t = str_join '' '' texts"
proof -
  obtain r0 w0 where d: "ensure_output_dir env output_dir w = (r0, w0)"
    by (cases "ensure_output_dir env output_dir w")
  have f: "files w0 = files w"
    using ensure_output_dir_keeps(1)[of env output_dir w] d by simp
  from assms d f show ?thesis
    by (auto simp: split_and_transcribe_audio_def split_and_transcribe_try_def
        split: option.splits sum.splits prod.splits)
qed

lemma split_and_transcribe_audio_loop:
  assumes "fst (ensure_output_dir env output_dir w) = None"
    and "files w audio_path = Some raw" and "from_file env raw = Inr audio"
    and "split_on_silence env audio min_silence_len silence_thresh 200 = Inr chunks"
    and "load_model env model_name = None"
    and "transcribe_chunks env model_name output_dir (length chunks) 0 chunks []
           (py_print (LoadingModel model_name) (snd (ensure_output_dir env output_dir w))) = (r, w1)"
  shows "split_and_transcribe_audio env audio_path output_dir min_silence_len silence_thresh
           model_name w =
         (case r of Inl e \<Rightarrow> (Inr None, py_print (SegmentError e) w1)
                  | Inr texts \<Rightarrow> (Inr (Some (str_join '' '' texts)), w1))"
proof -
  obtain w0 where d: "ensure_output_dir env output_dir w = (None, w0)"
    using assms(1) by (cases "ensure_output_dir env output_dir w") auto
  have f: "files w0 = files w"
    using ensure_output_dir_keeps(1)[of env output_dir w] d by simp
  from assms d f show ?thesis
    by (auto simp: split_and_transcribe_audio_def split_and_transcribe_try_def
        split: option.splits sum.splits prod.splits)
qed

lemma split_and_transcribe_audio_load_fails:
  assumes "fst (ensure_output_dir env output_dir w) = None"
    and "files w audio_path = Some raw" and "from_file env raw = Inr audio"
    and "split_on_silence env audio min_silence_len silence_thresh 200 = Inr chunks"
    and "load_model env model_name = Some e"
  shows "split_and_transcribe_audio env audio_path output_dir min_silence_len silence_thresh
           model_name w =
         (Inr None, py_print (SegmentError e) (snd (ensure_output_dir env output_dir w)))"
proof -
  obtain w0 where d: "ensure_output_dir env output_dir w = (None, w0)"
    using assms(1) by (cases "ensure_output_dir env output_dir w") auto
  have f: "files w0 = files w"
    using ensure_output_dir_keeps(1)[of env output_dir w] d by simp
  from assms d f show ?thesis
    by (auto simp: split_and_transcribe_audio_def split_and_transcribe_try_def
        split: option.splits sum.splits prod.splits)
qed

lemma split_and_transcribe_try_fst:
  "fst (split_and_transcribe_try env audio_path output_dir min_silence_len silence_thresh
          model_name w) =
     (case files w audio_path of
        None \<Rightarrow> Inl (Exception ''FileNotFoundError'')
      | Some raw \<Rightarrow>
          (case from_file env raw of
             Inl e \<Rightarrow> Inl e
           | Inr audio \<Rightarrow>
               (case split_on_silence env audio min_silence_len silence_thresh 200 of
                  Inl e \<Rightarrow> Inl e
                | Inr chunks \<Rightarrow>
                    (case load_model env model_name of
                       Some e \<Rightarrow> Inl e
                     | None \<Rightarrow>
                         (case fst (transcribe_chunks env model_name output_dir (length chunks) 0
                                      chunks [] (py_print (LoadingModel model_name) w)) of
                            Inl e \<Rightarrow> Inl e
                          | Inr full_text \<Rightarrow> Inr (str_join '' '' full_text))))))"
  by (auto simp: split_and_transcribe_try_def split: option.splits sum.splits prod.splits)

lemma split_and_transcribe_audio_fst:
  "fst (split_and_transcribe_audio env audio_path output_dir min_silence_len silence_thresh
          model_name w) =
     (case fst (ensure_output_dir env output_dir w) of
        Some e \<Rightarrow> Inl e
      | None \<Rightarrow>
          (case fst (split_and_transcribe_try env audio_path output_dir min_silence_len
                       silence_thresh model_name (snd (ensure_output_dir env output_dir w))) of
             Inl e \<Rightarrow> Inr None
           | Inr t \<Rightarrow> Inr (Some t)))"
  by (auto simp: split_and_transcribe_audio_def split: option.splits sum.splits prod.splits)

lemma split_and_transcribe_audio_remove_irrelevant:
  "fst (split_and_transcribe_audio (env\<lparr>remove_err := r\<rparr>) audio_path output_dir
          min_silence_len silence_thresh model_name w) =
   fst (split_and_transcribe_audio env audio_path output_dir min_silence_len silence_thresh
          model_name w)"
proof -
  have loop: "fst (transcribe_chunks (env\<lparr>remove_err := r\<rparr>) model_name output_dir n 0 chunks [] w1) =
        fst (transcribe_chunks env model_name output_dir n 0 chunks [] w1)" for n chunks w1
    by (rule transcribe_chunks_remove_irrelevant) simp
  have "fst (split_and_transcribe_try (env\<lparr>remove_err := r\<rparr>) audio_path output_dir
               min_silence_len silence_thresh model_name w0) =
        fst (split_and_transcribe_try env audio_path output_dir min_silence_len silence_thresh
               model_name w0)" for w0
    by (simp add: split_and_transcribe_try_fst loop split: option.splits sum.splits)
  then show ?thesis
    by (simp add: split_and_transcribe_audio_fst split: option.splits sum.splits)
qed

subsection \<open>Which files and directories a step can change\<close>

lemma process_chunk_files_frame:
  "q \<noteq> chunk_filename output_dir i \<Longrightarrow>
   files (snd (process_chunk env model_name output_dir n i chunk w)) q = files w q"
  by (auto simp: process_chunk_def write_file_def model_transcribe_def Let_def
      delete_chunk_def os_remove_def split: option.splits sum.splits)

lemma transcribe_chunks_files_frame:
  "transcribe_chunks env model_name output_dir n i chunks full_text w = (r, w') \<Longrightarrow>
   (\<And>j. q \<noteq> chunk_filename output_dir j) \<Longrightarrow> files w' q = files w q"
proof (induction chunks arbitrary: i full_text w)
  case Nil
  then show ?case by simp
next
  case (Cons c cs)
  have step: "files (snd (process_chunk env model_name output_dir n i c w)) q = files w q"
    using Cons.prems(2) by (simp add: process_chunk_files_frame)
  show ?case
  proof (cases "process_chunk env model_name output_dir n i c w")
    case (Pair v w1)
    show ?thesis
    proof (cases v)
      case (Inl e)
      with Pair Cons.prems(1) step show ?thesis by simp
    next
      case (Inr tx)
      with Pair Cons.prems(1) have
        "transcribe_chunks env model_name output_dir n (i + 1) cs (full_text @ [tx]) w1 = (r, w')"
        by simp
      from Cons.IH[OF this Cons.prems(2)] Pair step show ?thesis by simp
    qed
  qed
qed

text \<open>The world the segmenting transcriber leaves, step by step.\<close>

lemma split_and_transcribe_try_snd:
  "snd (split_and_transcribe_try env audio_path output_dir min_silence_len silence_thresh
          model_name w) = w \<or>
   (\<exists>n chunks. snd (split_and_transcribe_try env audio_path output_dir min_silence_len
                      silence_thresh model_name w) =
                 snd (transcribe_chunks env model_name output_dir n 0 chunks []
                        (py_print (LoadingModel model_name) w)))"
proof (cases "files w audio_path")
  case None
  then show ?thesis by (simp add: split_and_transcribe_try_def)
next
  case (Some raw)
  show ?thesis
  proof (cases "from_file env raw")
    case (Inl e)
    with Some show ?thesis by (simp add: split_and_transcribe_try_def)
  next
    case (Inr audio)
    show ?thesis
    proof (cases "split_on_silence env audio min_silence_len silence_thresh 200")
      case (Inl e)
      with Some Inr show ?thesis by (simp add: split_and_transcribe_try_def)
    next
      case chunks: (Inr chunks)
      show ?thesis
      proof (cases "load_model env model_name")
        case (Some e)
        with \<open>files w audio_path = Some raw\<close> Inr chunks show ?thesis
          by (simp add: split_and_transcribe_try_def)
      next
        case None
        have "snd (split_and_transcribe_try env audio_path output_dir min_silence_len
                     silence_thresh model_name w) =
              snd (transcribe_chunks env model_name output_dir (length chunks) 0 chunks []
                     (py_print (LoadingModel model_name) w))"
          using \<open>files w audio_path = Some raw\<close> Inr chunks None
          by (simp add: split_and_transcribe_try_def split: prod.splits sum.splits)
        then show ?thesis by blast
      qed
    qed
  qed
qed

lemma split_and_transcribe_audio_snd:
  "\<exists>w1. (w1 = snd (ensure_output_dir env output_dir w) \<or>
          (\<exists>n chunks. w1 = snd (transcribe_chunks env model_name output_dir n 0 chunks []
                   (py_print (LoadingModel model_name) (snd (ensure_output_dir env output_dir w)))))) \<and>
        (snd (split_and_transcribe_audio env audio_path output_dir min_silence_len silence_thresh
                model_name w) = w1 \<or>
         (\<exists>e. snd (split_and_transcribe_audio env audio_path output_dir min_silence_len
                     silence_thresh model_name w) = py_print (SegmentError e) w1))"
proof -
  obtain r0 w0 where d: "ensure_output_dir env output_dir w = (r0, w0)"
    by (cases "ensure_output_dir env output_dir w")
  obtain r1 w1 where t: "split_and_transcribe_try env audio_path output_dir min_silence_len
                           silence_thresh model_name w0 = (r1, w1)"
    by (cases "split_and_transcribe_try env audio_path output_dir min_silence_len
                 silence_thresh model_name w0")
  from split_and_transcribe_try_snd[of env audio_path output_dir min_silence_len silence_thresh
      model_name w0] t
  have w1: "w1 = w0 \<or> (\<exists>n chunks. w1 = snd (transcribe_chunks env model_name output_dir n 0 chunks []
                   (py_print (LoadingModel model_name) w0)))"
    by simp
  have "snd (split_and_transcribe_audio env audio_path output_dir min_silence_len silence_thresh
                model_name w) = w0 \<or>
        snd (split_and_transcribe_audio env audio_path output_dir min_silence_len silence_thresh
                model_name w) = w1 \<or>
        (\<exists>e. snd (split_and_transcribe_audio env audio_path output_dir min_silence_len
                     silence_thresh model_name w) = py_print (SegmentError e) w1)"
    using d t by (cases r0; cases r1) (auto simp: split_and_transcribe_audio_def)
  with w1 d show ?thesis
    by (cases r0) (auto simp: split_and_transcribe_audio_def)
qed

lemma split_and_transcribe_audio_files_frame:
  assumes "\<And>j. q \<noteq> chunk_filename output_dir j"
  shows "files (snd (split_and_transcribe_audio env audio_path output_dir min_silence_len
                       silence_thresh model_name w)) q = files w q"
proof -
  have loop: "files (snd (transcribe_chunks env model_name output_dir n 0 chunks [] w1)) q = files w1 q"
    for n chunks w1
    using transcribe_chunks_files_frame[OF surjective_pairing] assms
    by blast
  from split_and_transcribe_audio_snd[where env=env and output_dir=output_dir and w=w
      and model_name=model_name and audio_path=audio_path and min_silence_len=min_silence_len
      and silence_thresh=silence_thresh]
  show ?thesis
    by (auto simp: loop)
qed

lemma split_and_transcribe_audio_dirs:
  "dirs (snd (split_and_transcribe_audio env audio_path output_dir min_silence_len
                silence_thresh model_name w)) = dirs w \<or>
   dirs (snd (split_and_transcribe_audio env audio_path output_dir min_silence_len
                silence_thresh model_name w)) = insert output_dir (dirs w)"
proof -
  have loop: "dirs (snd (transcribe_chunks env model_name output_dir n 0 chunks [] w1)) = dirs w1"
    for n chunks w1
    using transcribe_chunks_dirs[OF surjective_pairing] .
  from split_and_transcribe_audio_snd[where env=env and output_dir=output_dir and w=w
      and model_name=model_name and audio_path=audio_path and min_silence_len=min_silence_len
      and silence_thresh=silence_thresh]
  have "dirs (snd (split_and_transcribe_audio env audio_path output_dir min_silence_len
                silence_thresh model_name w)) = dirs (snd (ensure_output_dir env output_dir w))"
    by (auto simp: loop)
  with ensure_output_dir_dirs[of env output_dir w] show ?thesis
    by simp
qed

text \<open>The names the orchestrator builds.\<close>

lemma chunk_filename_under:
  "d \<noteq> [] \<Longrightarrow> last d \<noteq> CHR ''/'' \<Longrightarrow> is_under d (chunk_filename d j)"
  by (simp add: is_under_def chunk_filename_def os_path_join_def)

lemma chunk_filename_under_chunks_dir:
  "is_under (chunks_dir_of video_name) (chunk_filename (chunks_dir_of video_name) j)"
  by (rule chunk_filename_under) (simp_all add: chunks_dir_of_def)

lemma artifact_names_apart:
  "audio_file_of video_name \<noteq> text_output_file_of video_name"
  "\<not> is_under (chunks_dir_of video_name) (audio_file_of video_name)"
  "\<not> is_under (chunks_dir_of video_name) (text_output_file_of video_name)"
  "audio_file_of video_name \<noteq> chunks_dir_of video_name"
  "text_output_file_of video_name \<noteq> chunks_dir_of video_name"
  by (simp_all add: audio_file_of_def text_output_file_of_def chunks_dir_of_def is_under_def)

lemma transcribe_step_files_frame:
  assumes "\<not> is_under (chunks_dir_of video_name) q"
  shows "files (snd (transcribe_step env video_name model_name use_segmentation w)) q = files w q"
proof (cases use_segmentation)
  case True
  have "q \<noteq> chunk_filename (chunks_dir_of video_name) j" for j
    using assms chunk_filename_under_chunks_dir by metis
  from split_and_transcribe_audio_files_frame[OF this] True show ?thesis
    by (simp add: transcribe_step_def)
next
  case False
  then show ?thesis
    by (auto simp: transcribe_step_def transcribe_audio_with_whisper_def Let_def
        split: option.splits sum.splits prod.splits)
qed

lemma transcribe_step_dirs:
  "dirs (snd (transcribe_step env video_name model_name use_segmentation w)) = dirs w \<or>
   dirs (snd (transcribe_step env video_name model_name use_segmentation w)) =
     insert (chunks_dir_of video_name) (dirs w)"
proof (cases use_segmentation)
  case True
  with split_and_transcribe_audio_dirs[of env "audio_file_of video_name" "chunks_dir_of video_name"
      segmented_min_silence_len segmented_silence_thresh model_name "py_print UsingSegmentation w"]
  show ?thesis by (simp add: transcribe_step_def)
next
  case False
  then show ?thesis
    by (auto simp: transcribe_step_def transcribe_audio_with_whisper_def Let_def
        split: option.splits sum.splits prod.splits)
qed

lemma extract_audio_frame:
  "q \<noteq> audio_output_path \<Longrightarrow>
   files (snd (extract_audio_from_video env video_path audio_output_path w)) q = files w q"
  "dirs (snd (extract_audio_from_video env video_path audio_output_path w)) = dirs w"
  by (auto simp: extract_audio_from_video_def write_file_def
      split: option.splits sum.splits prod.splits)

lemma extract_audio_True:
  "extract_audio_from_video env video_path audio_output_path w = (True, w1) \<Longrightarrow>
   \<exists>video audio. files w video_path = Some video \<and> decode_video env video = Inr audio \<and>
     files w1 audio_output_path = Some audio"
  by (auto simp: extract_audio_from_video_def write_file_def
      split: option.splits sum.splits prod.splits if_splits)

lemma os_remove_frame:
  "q \<noteq> p \<Longrightarrow> files (snd (os_remove env p w)) q = files w q"
  "dirs (snd (os_remove env p w)) = dirs w"
  by (simp_all add: os_remove_def split: option.splits)

lemma shutil_rmtree_frame:
  "\<not> is_under p q \<Longrightarrow> files (snd (shutil_rmtree env p w)) q = files w q"
  "d \<noteq> p \<Longrightarrow> \<not> is_under p d \<Longrightarrow> d \<in> dirs (snd (shutil_rmtree env p w)) \<longleftrightarrow> d \<in> dirs w"
  by (simp_all add: shutil_rmtree_def split: option.splits)

text \<open>The world of \<open>cleanup_try\<close>, step by step.\<close>

lemma cleanup_try_snd:
  "\<exists>w1 w2. (w1 = w \<or> w1 = snd (os_remove env (audio_file_of video_name) w) \<or>
             w1 = py_print (TempAudioDeleted (audio_file_of video_name))
                    (snd (os_remove env (audio_file_of video_name) w))) \<and>
           (w2 = w1 \<or> w2 = snd (shutil_rmtree env (chunks_dir_of video_name) w1) \<or>
             w2 = py_print (ChunkDirDeleted (chunks_dir_of video_name))
                    (snd (shutil_rmtree env (chunks_dir_of video_name) w1))) \<and>
           snd (cleanup_try env video_name use_segmentation w) = w2"
proof (cases "os_path_exists w (audio_file_of video_name)")
  case False
  then show ?thesis
    by (cases "shutil_rmtree env (chunks_dir_of video_name) w")
       (auto simp: cleanup_try_def Let_def split: option.splits)
next
  case True
  obtain r1 w1 where rm: "os_remove env (audio_file_of video_name) w = (r1, w1)"
    by (cases "os_remove env (audio_file_of video_name) w")
  show ?thesis
  proof (cases r1)
    case (Some e)
    with True rm show ?thesis
      by (auto simp: cleanup_try_def)
  next
    case None
    with True rm show ?thesis
      by (cases "shutil_rmtree env (chunks_dir_of video_name)
                   (py_print (TempAudioDeleted (audio_file_of video_name)) w1)")
         (auto simp: cleanup_try_def Let_def split: option.splits)
  qed
qed

lemma cleanup_snd:
  "files (cleanup env video_name use_segmentation w) =
     files (snd (cleanup_try env video_name use_segmentation w))"
  "dirs (cleanup env video_name use_segmentation w) =
     dirs (snd (cleanup_try env video_name use_segmentation w))"
  by (auto simp: cleanup_def split: prod.splits option.splits)

lemma cleanup_files_frame:
  assumes "q \<noteq> audio_file_of video_name" "\<not> is_under (chunks_dir_of video_name) q"
  shows "files (cleanup env video_name use_segmentation w) q = files w q"
proof -
  from cleanup_try_snd[of w env video_name use_segmentation] obtain w1 w2 where
    w1: "w1 = w \<or> w1 = snd (os_remove env (audio_file_of video_name) w) \<or>
         w1 = py_print (TempAudioDeleted (audio_file_of video_name))
                (snd (os_remove env (audio_file_of video_name) w))" and
    w2: "w2 = w1 \<or> w2 = snd (shutil_rmtree env (chunks_dir_of video_name) w1) \<or>
         w2 = py_print (ChunkDirDeleted (chunks_dir_of video_name))
                (snd (shutil_rmtree env (chunks_dir_of video_name) w1))" and
    c: "snd (cleanup_try env video_name use_segmentation w) = w2"
    by blast
  from w1 assms(1) have "files w1 q = files w q"
    by (auto simp: os_remove_frame)
  moreover from w2 assms(2) have "files w2 q = files w1 q"
    by (auto simp: shutil_rmtree_frame)
  ultimately show ?thesis
    using c by (simp add: cleanup_snd)
qed

lemma cleanup_dirs_frame:
  assumes "d \<noteq> chunks_dir_of video_name" "\<not> is_under (chunks_dir_of video_name) d"
  shows "d \<in> dirs (cleanup env video_name use_segmentation w) \<longleftrightarrow> d \<in> dirs w"
proof -
  from cleanup_try_snd[of w env video_name use_segmentation] obtain w1 w2 where
    w1: "w1 = w \<or> w1 = snd (os_remove env (audio_file_of video_name) w) \<or>
         w1 = py_print (TempAudioDeleted (audio_file_of video_name))
                (snd (os_remove env (audio_file_of video_name) w))" and
    w2: "w2 = w1 \<or> w2 = snd (shutil_rmtree env (chunks_dir_of video_name) w1) \<or>
         w2 = py_print (ChunkDirDeleted (chunks_dir_of video_name))
                (snd (shutil_rmtree env (chunks_dir_of video_name) w1))" and
    c: "snd (cleanup_try env video_name use_segmentation w) = w2"
    by blast
  from w1 have "dirs w1 = dirs w"
    by (auto simp: os_remove_frame)
  moreover from w2 assms have "d \<in> dirs w2 \<longleftrightarrow> d \<in> dirs w1"
    by (auto simp: shutil_rmtree_frame)
  ultimately show ?thesis
    using c by (simp add: cleanup_snd)
qed

lemma write_file_frame:
  "q \<noteq> p \<Longrightarrow> files (snd (write_file env p d w)) q = files w q"
  "dirs (snd (write_file env p d w)) = dirs w"
  "stdout (snd (write_file env p d w)) = stdout w"
  by (simp_all add: write_file_def split: option.splits)

lemma save_and_cleanup_files_frame:
  assumes "q \<noteq> audio_file_of video_name" "q \<noteq> text_output_file_of video_name"
    "\<not> is_under (chunks_dir_of video_name) q"
  shows "files (snd (save_and_cleanup env video_name use_segmentation transcribed_text w)) q
         = files w q"
proof (cases "transcribed_text = None \<or> transcribed_text = Some []")
  case True
  then show ?thesis by (auto simp: save_and_cleanup_def)
next
  case False
  then obtain t where t: "transcribed_text = Some t" "t \<noteq> []" by auto
  let ?w1 = "py_print (Preview (if length t > 200 then take 200 t @ ''...'' else t))
               (py_print PreviewHeader (py_print TranscriptionDone w))"
  obtain r w2 where wr: "write_file env (text_output_file_of video_name) t ?w1 = (r, w2)"
    by (cases "write_file env (text_output_file_of video_name) t ?w1")
  with write_file_frame(1)[OF assms(2), of env t ?w1] have "files w2 q = files w q"
    by simp
  with t wr assms show ?thesis
    by (cases r) (simp_all add: save_and_cleanup_def Let_def cleanup_files_frame)
qed

lemma save_and_cleanup_dirs_frame:
  assumes "d \<noteq> chunks_dir_of video_name" "\<not> is_under (chunks_dir_of video_name) d"
  shows "d \<in> dirs (snd (save_and_cleanup env video_name use_segmentation transcribed_text w))
         \<longleftrightarrow> d \<in> dirs w"
proof (cases "transcribed_text = None \<or> transcribed_text = Some []")
  case True
  then show ?thesis by (auto simp: save_and_cleanup_def)
next
  case False
  then obtain t where t: "transcribed_text = Some t" "t \<noteq> []" by auto
  let ?w1 = "py_print (Preview (if length t > 200 then take 200 t @ ''...'' else t))
               (py_print PreviewHeader (py_print TranscriptionDone w))"
  obtain r w2 where wr: "write_file env (text_output_file_of video_name) t ?w1 = (r, w2)"
    by (cases "write_file env (text_output_file_of video_name) t ?w1")
  with write_file_frame(2)[of env "text_output_file_of video_name" t ?w1] have "dirs w2 = dirs w"
    by simp
  with t wr assms show ?thesis
    by (cases r) (simp_all add: save_and_cleanup_def Let_def cleanup_dirs_frame)
qed

subsection \<open>Base names and extensions\<close>

lemma takeWhile_absent:
  "c \<notin> set xs \<Longrightarrow> takeWhile (\<lambda>x. x \<noteq> c) (xs @ ys) = xs @ takeWhile (\<lambda>x. x \<noteq> c) ys"
  by (induction xs) auto

lemma takeWhile_absent_all:
  "c \<notin> set xs \<Longrightarrow> takeWhile (\<lambda>x. x \<noteq> c) xs = xs"
  using takeWhile_absent[of c xs "[]"] by simp

lemma os_path_basename_eq:
  "os_path_basename p = rev (takeWhile (\<lambda>x. x \<noteq> CHR ''/'') (rev p))"
proof (cases "CHR ''/'' \<in> set p")
  case False
  then have "rev (takeWhile (\<lambda>x. x \<noteq> CHR ''/'') (rev p)) = p"
    by (simp add: takeWhile_absent_all)
  moreover from False have "os_path_basename p = p"
    by (simp add: os_path_basename_def rfind_def)
  ultimately show ?thesis by simp
next
  case True
  let ?tw = "takeWhile (\<lambda>x. x \<noteq> CHR ''/'') (rev p)"
  have le: "length ?tw \<le> length p"
    using length_takeWhile_le[of "\<lambda>x. x \<noteq> CHR ''/''" "rev p"] by simp
  have "nat (rfind p (CHR ''/'') + 1) = length p - length ?tw"
    using True le by (simp add: rfind_def)
  then have "os_path_basename p = drop (length p - length ?tw) p"
    by (simp add: os_path_basename_def)
  also have "\<dots> = rev (take (length ?tw) (rev p))"
    by (simp add: take_rev)
  also have "take (length ?tw) (rev p) = ?tw"
    using takeWhile_eq_take[of "\<lambda>x. x \<noteq> CHR ''/''" "rev p"] by simp
  finally show ?thesis .
qed

lemma os_path_basename_no_sep: "CHR ''/'' \<notin> set (os_path_basename p)"
  using set_takeWhileD[of "CHR ''/''" "\<lambda>x. x \<noteq> CHR ''/''" "rev p"]
  by (auto simp: os_path_basename_eq)

lemma os_path_splitext_subset: "set (fst (os_path_splitext p)) \<subseteq> set p"
  by (auto simp: os_path_splitext_def Let_def dest: in_set_takeD)

lemma get_filename_without_extension_no_sep:
  "CHR ''/'' \<notin> set (get_filename_without_extension file_path)"
  using os_path_splitext_subset[of "os_path_basename file_path"] os_path_basename_no_sep[of file_path]
  by (auto simp: get_filename_without_extension_def)

lemma os_path_basename_in_dir:
  assumes "dir = [] \<or> last dir = CHR ''/''" and "CHR ''/'' \<notin> set name"
  shows "os_path_basename (dir @ name) = name"
proof -
  have "takeWhile (\<lambda>x. x \<noteq> CHR ''/'') (rev name @ rev dir) = rev name"
  proof (cases "dir = []")
    case True
    with assms(2) show ?thesis by (simp add: takeWhile_absent_all)
  next
    case False
    with assms(1) have "hd (rev dir) = CHR ''/''" "rev dir \<noteq> []"
      by (simp_all add: hd_rev)
    then have "takeWhile (\<lambda>x. x \<noteq> CHR ''/'') (rev dir) = []"
      by (cases "rev dir") auto
    with assms(2) show ?thesis
      by (simp add: takeWhile_absent)
  qed
  then show ?thesis by (simp add: os_path_basename_eq)
qed

lemma rfind_last_dot:
  assumes "CHR ''.'' \<notin> set ext"
  shows "rfind (stem @ CHR ''.'' # ext) (CHR ''.'') = int (length stem)"
proof -
  have "takeWhile (\<lambda>x. x \<noteq> CHR ''.'') (rev ext @ CHR ''.'' # rev stem) = rev ext"
    using assms by (simp add: takeWhile_absent)
  then show ?thesis
    by (simp add: rfind_def)
qed

lemma os_path_splitext_stem:
  assumes "CHR ''/'' \<notin> set stem" "CHR ''/'' \<notin> set ext" "CHR ''.'' \<notin> set ext"
    and "\<exists>c\<in>set stem. c \<noteq> CHR ''.''"
  shows "os_path_splitext (stem @ ''.'' @ ext) = (stem, ''.'' @ ext)"
proof -
  have sep: "rfind (stem @ CHR ''.'' # ext) (CHR ''/'') = - 1"
    using assms(1,2) by (simp add: rfind_def)
  have ex: "list_ex (\<lambda>c. c \<noteq> CHR ''.'') stem"
    using assms(4) by (simp add: list_ex_iff)
  show ?thesis
    using ex by (simp add: os_path_splitext_def Let_def sep rfind_last_dot[OF assms(3)])
qed

lemma get_filename_without_extension_stem:
  assumes "dir = [] \<or> last dir = CHR ''/''"
    and "CHR ''/'' \<notin> set stem" "CHR ''/'' \<notin> set ext" "CHR ''.'' \<notin> set ext"
    and "\<exists>c\<in>set stem. c \<noteq> CHR ''.''"
  shows "get_filename_without_extension (dir @ stem @ ''.'' @ ext) = stem"
proof -
  have "os_path_basename (dir @ (stem @ ''.'' @ ext)) = stem @ ''.'' @ ext"
    using assms(1,2,3) by (intro os_path_basename_in_dir) auto
  then show ?thesis
    using os_path_splitext_stem[OF assms(2-5)]
    by (simp add: get_filename_without_extension_def)
qed

subsection \<open>The steps of the orchestrator\<close>

lemma extract_step_frame:
  "q \<noteq> audio_file_of video_name \<Longrightarrow>
   files (snd (extract_step env video_path video_name w)) q = files w q"
  "dirs (snd (extract_step env video_path video_name w)) = dirs w"
  by (simp_all add: extract_step_def extract_audio_frame)

lemma extract_step_True:
  "extract_step env video_path video_name w = (True, w2) \<Longrightarrow>
   \<exists>video audio. files w video_path = Some video \<and> decode_video env video = Inr audio \<and>
     files w2 (audio_file_of video_name) = Some audio"
  unfolding extract_step_def by (drule extract_audio_True) simp

lemma save_and_cleanup_True:
  assumes "save_and_cleanup env video_name use_segmentation transcribed_text w = (True, w')"
  shows "\<exists>t. transcribed_text = Some t \<and> t \<noteq> [] \<and>
             files w' (text_output_file_of video_name) = Some t"
proof -
  from assms obtain t where t: "transcribed_text = Some t" "t \<noteq> []"
    by (cases transcribed_text) (auto simp: save_and_cleanup_def split: if_splits)
  let ?w1 = "py_print (Preview (if length t > 200 then take 200 t @ ''...'' else t))
               (py_print PreviewHeader (py_print TranscriptionDone w))"
  obtain r w2 where wr: "write_file env (text_output_file_of video_name) t ?w1 = (r, w2)"
    by (cases "write_file env (text_output_file_of video_name) t ?w1")
  with assms t have r: "r = None"
    and w': "w' = cleanup env video_name use_segmentation
                    (py_print (Saved (text_output_file_of video_name)) w2)"
    by (cases r; simp add: save_and_cleanup_def Let_def)+
  from wr r have "files w2 (text_output_file_of video_name) = Some t"
    by (auto simp: write_file_def split: if_splits option.splits)
  with w' have "files w' (text_output_file_of video_name) = Some t"
    using artifact_names_apart(1,3)[of video_name]
    by (simp add: cleanup_files_frame)
  with t show ?thesis by blast
qed

lemma process_video_to_text_True:
  assumes "process_video_to_text env video_path model_name use_segmentation w = (Inr True, w')"
  shows "\<exists>w2 w3 transcribed_text.
           extract_step env video_path (get_filename_without_extension video_path) w = (True, w2) \<and>
           transcribe_step env (get_filename_without_extension video_path) model_name
             use_segmentation w2 = (Inr transcribed_text, w3) \<and>
           save_and_cleanup env (get_filename_without_extension video_path) use_segmentation
             transcribed_text w3 = (True, w')"
  using assms
  by (auto simp: process_video_to_text_def Let_def split: if_splits prod.splits bool.splits sum.splits)

text \<open>The state in which the orchestrator returns, step by step.\<close>

lemma process_video_to_text_snd:
  "snd (process_video_to_text env video_path model_name use_segmentation w)
     = py_print (VideoMissing video_path) w \<or>
   snd (process_video_to_text env video_path model_name use_segmentation w)
     = py_print ExtractFailed
         (snd (extract_step env video_path (get_filename_without_extension video_path) w)) \<or>
   snd (process_video_to_text env video_path model_name use_segmentation w)
     = snd (transcribe_step env (get_filename_without_extension video_path) model_name
              use_segmentation
              (snd (extract_step env video_path (get_filename_without_extension video_path) w))) \<or>
   (\<exists>transcribed_text.
      snd (process_video_to_text env video_path model_name use_segmentation w)
        = snd (save_and_cleanup env (get_filename_without_extension video_path) use_segmentation
                 transcribed_text
                 (snd (transcribe_step env (get_filename_without_extension video_path) model_name
                         use_segmentation
                         (snd (extract_step env video_path
                                 (get_filename_without_extension video_path) w))))))"
proof (cases "os_path_exists w video_path")
  case False
  then show ?thesis by (simp add: process_video_to_text_def)
next
  case True
  let ?name = "get_filename_without_extension video_path"
  obtain ok w2 where ex: "extract_step env video_path ?name w = (ok, w2)"
    by (cases "extract_step env video_path ?name w")
  show ?thesis
  proof (cases ok)
    case False
    with True ex show ?thesis by (simp add: process_video_to_text_def)
  next
    case ok: True
    obtain r w3 where tr: "transcribe_step env ?name model_name use_segmentation w2 = (r, w3)"
      by (cases "transcribe_step env ?name model_name use_segmentation w2")
    show ?thesis
    proof (cases r)
      case (Inl e)
      with True ex ok tr show ?thesis by (simp add: process_video_to_text_def)
    next
      case (Inr transcribed_text)
      with True ex ok tr
      have "snd (process_video_to_text env video_path model_name use_segmentation w)
            = snd (save_and_cleanup env ?name use_segmentation transcribed_text w3)"
        by (simp add: process_video_to_text_def split: prod.splits)
      with ex tr show ?thesis by auto
    qed
  qed
qed

lemma process_video_to_text_files_frame:
  assumes "q \<noteq> audio_file_of (get_filename_without_extension video_path)"
    and "q \<noteq> text_output_file_of (get_filename_without_extension video_path)"
    and "\<not> is_under (chunks_dir_of (get_filename_without_extension video_path)) q"
  shows "files (snd (process_video_to_text env video_path model_name use_segmentation w)) q
         = files w q"
  using process_video_to_text_snd[of env video_path model_name use_segmentation w] assms
  by (auto simp: extract_step_frame transcribe_step_files_frame save_and_cleanup_files_frame)

lemma transcribe_step_dirs_frame:
  assumes "d \<noteq> chunks_dir_of video_name"
  shows "d \<in> dirs (snd (transcribe_step env video_name model_name use_segmentation w))
         \<longleftrightarrow> d \<in> dirs w"
  using transcribe_step_dirs[of env video_name model_name use_segmentation w] assms
  by auto

lemma process_video_to_text_dirs_frame:
  assumes "d \<noteq> chunks_dir_of (get_filename_without_extension video_path)"
    and "\<not> is_under (chunks_dir_of (get_filename_without_extension video_path)) d"
  shows "d \<in> dirs (snd (process_video_to_text env video_path model_name use_segmentation w))
         \<longleftrightarrow> d \<in> dirs w"
  using process_video_to_text_snd[of env video_path model_name use_segmentation w] assms
  by (auto simp: extract_step_frame transcribe_step_dirs_frame save_and_cleanup_dirs_frame)

section \<open>The concrete runs, evaluated\<close>

lemma chunk_names:
  "chunk_filename ''clip_audio_chunks'' 0 = ''clip_audio_chunks/chunk_0.wav''"
  "chunk_filename ''clip_audio_chunks'' (Suc 0) = ''clip_audio_chunks/chunk_1.wav''"
  by (simp_all add: chunk_filename_def os_path_join_def str_nat.simps)

lemma segmented_run_ok:
  "split_and_transcribe_audio env_ok ''clip_temp_audio.mp3'' ''clip_audio_chunks'' 700 (- 35) ''base''
     world_audio =
   (Inr (Some ''hello world''),
    world_audio\<lparr>dirs := {''clip_audio_chunks'', ''videos''},
      stdout := [LoadingModel ''base'',
        TranscribingChunk 1 2 ''clip_audio_chunks/chunk_0.wav'', ChunkDone 1,
        ChunkDeleted ''clip_audio_chunks/chunk_0.wav'',
        TranscribingChunk 2 2 ''clip_audio_chunks/chunk_1.wav'', ChunkDone 2,
        ChunkDeleted ''clip_audio_chunks/chunk_1.wav'']\<rparr>)"
  by (auto simp: split_and_transcribe_audio_def ensure_output_dir_def os_makedirs_def
      os_path_exists_def split_and_transcribe_try_def process_chunk_def chunk_names
      write_file_def model_transcribe_def delete_chunk_def os_remove_def py_print_def
      env_ok_def world_audio_def world0_def fun_upd_def)

lemma segmented_run_remove_refused:
  "split_and_transcribe_audio env_remove_refused ''clip_temp_audio.mp3'' ''clip_audio_chunks'' 700 (- 35) ''base''
     world_audio =
   (Inr (Some ''hello world''),
    world_audio\<lparr>
      files := (files world_audio)(''clip_audio_chunks/chunk_0.wav'' \<mapsto> ''hello'',
                  ''clip_audio_chunks/chunk_1.wav'' \<mapsto> ''world''),
      dirs := {''clip_audio_chunks'', ''videos''},
      stdout := [LoadingModel ''base'',
        TranscribingChunk 1 2 ''clip_audio_chunks/chunk_0.wav'', ChunkDone 1,
        ChunkDeleteWarning (Exception ''PermissionError''),
        TranscribingChunk 2 2 ''clip_audio_chunks/chunk_1.wav'', ChunkDone 2,
        ChunkDeleteWarning (Exception ''PermissionError'')]\<rparr>)"
  by (simp add: split_and_transcribe_audio_def ensure_output_dir_def os_makedirs_def
      os_path_exists_def split_and_transcribe_try_def process_chunk_def chunk_names
      write_file_def model_transcribe_def delete_chunk_def os_remove_def py_print_def
      env_ok_def env_remove_refused_def world_audio_def world0_def)

lemma clip_names:
  "get_filename_without_extension ''videos/clip.mp4'' = ''clip''"
  "get_filename_without_extension ''videos/clip.mov'' = ''clip''"
  by (simp_all add: get_filename_without_extension_def os_path_basename_def os_path_splitext_def
      rfind_def)

lemmas run_defs =
  process_video_to_text_def extract_step_def extract_audio_from_video_def transcribe_step_def
  transcribe_audio_with_whisper_def split_and_transcribe_audio_def ensure_output_dir_def
  split_and_transcribe_try_def process_chunk_def delete_chunk_def save_and_cleanup_def
  cleanup_def cleanup_try_def model_transcribe_def write_file_def os_remove_def os_makedirs_def
  shutil_rmtree_def os_path_exists_def is_under_def py_print_def audio_file_of_def
  text_output_file_of_def chunks_dir_of_def segmented_min_silence_len_def
  segmented_silence_thresh_def Let_def

lemmas env_defs =
  env_ok_def env_remove_refused_def env_makedirs_refused_def env_txt_refused_def env_no_chunks_def
  env_second_chunk_fails_def world0_def world_audio_def

lemma direct_run_ok:
  "fst (process_video_to_text env_ok ''videos/clip.mp4'' ''base'' False world0) = Inr True"
  "files (snd (process_video_to_text env_ok ''videos/clip.mp4'' ''base'' False world0)) ''clip.txt''
     = Some ''mp3:VIDEO''"
  by (simp_all add: clip_names run_defs env_defs)

lemma no_chunks_run:
  "fst (extract_step env_no_chunks ''videos/clip.mp4'' ''clip'' world0) = True"
  "fst (transcribe_step env_no_chunks ''clip'' ''base'' True
          (snd (extract_step env_no_chunks ''videos/clip.mp4'' ''clip'' world0))) = Inr (Some [])"
  by (simp_all add: run_defs env_defs)

lemma segmented_full_run_ok:
  "files (snd (process_video_to_text env_ok ''videos/clip.mp4'' ''base'' True world0)) ''clip.txt''
     = Some ''hello world''"
  by (simp add: clip_names chunk_names run_defs env_defs)

section \<open>The segmenting transcriber\<close>

text \<open>
  C2, as amended. For every run of \<^verbatim>\<open>split_and_transcribe_audio\<close> that returns a
  transcript: the audio was loaded and split into chunks, every chunk was transcribed,
  and the transcript is the texts of the chunks in chunk order joined with single
  spaces. After the first \<open>k\<close> iterations of the loop, that is when chunk \<open>k\<close> is about
  to be written, every earlier chunk file whose removal the operating system does not
  refuse is gone from the disk: it was removed in its own iteration. (A refused removal
  leaves the file, and the run goes on; see the counterexample.)
\<close>

theorem segmented_transcript_joined_chunks_deleted:
  assumes "split_and_transcribe_audio env audio_path output_dir min_silence_len silence_thresh
             model_name w = (Inr (Some t), w')"
  shows "\<exists>raw audio chunks texts w1.
           files w audio_path = Some raw \<and> from_file env raw = Inr audio \<and>
           split_on_silence env audio min_silence_len silence_thresh 200 = Inr chunks \<and>
           map (transcribe env model_name) chunks = map Inr texts \<and>
           t = str_join '' '' texts \<and>
           files w1 = files w \<and>
           (\<forall>k\<le>length chunks. \<exists>wk.
              transcribe_chunks env model_name output_dir (length chunks) 0 (take k chunks) [] w1
                = (Inr (take k texts), wk) \<and>
              transcribe_chunks env model_name output_dir (length chunks) k (drop k chunks)
                (take k texts) wk = (Inr texts, w') \<and>
              (\<forall>j<k. remove_err env (chunk_filename output_dir j) = None \<longrightarrow>
                     files wk (chunk_filename output_dir j) = None))"
proof -
  let ?w1 = "py_print (LoadingModel model_name) (snd (ensure_output_dir env output_dir w))"
  from split_and_transcribe_audio_Some[OF assms] obtain raw audio chunks texts where
    src: "files w audio_path = Some raw" "from_file env raw = Inr audio"
      "split_on_silence env audio min_silence_len silence_thresh 200 = Inr chunks" and
    loop: "transcribe_chunks env model_name output_dir (length chunks) 0 chunks [] ?w1 = (Inr texts, w')" and
    t: "t = str_join '' '' texts"
    by blast
  from transcribe_chunks_texts[OF loop]
  have texts: "map (transcribe env model_name) chunks = map Inr texts"
    by auto
  have pre: "\<exists>wk.
      transcribe_chunks env model_name output_dir (length chunks) 0 (take k chunks) [] ?w1
        = (Inr (take k texts), wk) \<and>
      transcribe_chunks env model_name output_dir (length chunks) k (drop k chunks)
        (take k texts) wk = (Inr texts, w') \<and>
      (\<forall>j<k. remove_err env (chunk_filename output_dir j) = None \<longrightarrow>
             files wk (chunk_filename output_dir j) = None)"
    if k: "k \<le> length chunks" for k
  proof -
    from transcribe_chunks_prefix[OF loop k] obtain wk where
      a: "transcribe_chunks env model_name output_dir (length chunks) 0 (take k chunks) [] ?w1
            = (Inr (take k texts), wk)" and
      b: "transcribe_chunks env model_name output_dir (length chunks) k (drop k chunks)
            (take k texts) wk = (Inr texts, w')"
      by auto
    have "files wk (chunk_filename output_dir j) = None"
      if "j < k" "remove_err env (chunk_filename output_dir j) = None" for j
      using transcribe_chunks_deleted[OF a, of j] that k by simp
    with a b show ?thesis by blast
  qed
  have "files ?w1 = files w" by simp
  with src texts t pre show ?thesis by blast
qed

theorem segmented_transcript_joined_chunks_deleted_witness:
  "split_and_transcribe_audio env_ok ''clip_temp_audio.mp3'' ''clip_audio_chunks'' 700 (- 35)
     ''base'' world_audio =
   (Inr (Some ''hello world''),
    world_audio\<lparr>dirs := {''clip_audio_chunks'', ''videos''},
      stdout := [LoadingModel ''base'',
        TranscribingChunk 1 2 ''clip_audio_chunks/chunk_0.wav'', ChunkDone 1,
        ChunkDeleted ''clip_audio_chunks/chunk_0.wav'',
        TranscribingChunk 2 2 ''clip_audio_chunks/chunk_1.wav'', ChunkDone 2,
        ChunkDeleted ''clip_audio_chunks/chunk_1.wav'']\<rparr>) \<and>
   (\<exists>chunks texts.
      split_on_silence env_ok ''mp3:VIDEO'' 700 (- 35) 200 = Inr chunks \<and>
      map (transcribe env_ok ''base'') chunks = map Inr texts \<and>
      ''hello world'' = str_join '' '' texts)"
proof -
  from segmented_transcript_joined_chunks_deleted[OF segmented_run_ok]
  obtain raw audio chunks texts where
    "files world_audio ''clip_temp_audio.mp3'' = Some raw" "from_file env_ok raw = Inr audio"
    "split_on_silence env_ok audio 700 (- 35) 200 = Inr chunks"
    "map (transcribe env_ok ''base'') chunks = map Inr texts"
    "''hello world'' = str_join '' '' texts"
    by blast
  moreover have "split_on_silence env_ok audio 700 (- 35) 200 =
                 split_on_silence env_ok ''mp3:VIDEO'' 700 (- 35) 200"
    by (simp add: env_ok_def)
  ultimately show ?thesis
    using segmented_run_ok by metis
qed

text \<open>
  C2 as the specification states it fails where the removal of a chunk file is refused:
  the run returns its transcript, and both chunk files are on the disk at its end.
\<close>

theorem chunk_files_left_when_removal_refused:
  "fst (split_and_transcribe_audio env_remove_refused ''clip_temp_audio.mp3''
          ''clip_audio_chunks'' 700 (- 35) ''base'' world_audio) = Inr (Some ''hello world'') \<and>
   files (snd (split_and_transcribe_audio env_remove_refused ''clip_temp_audio.mp3''
          ''clip_audio_chunks'' 700 (- 35) ''base'' world_audio))
     (chunk_filename ''clip_audio_chunks'' 0) = Some ''hello'' \<and>
   files (snd (split_and_transcribe_audio env_remove_refused ''clip_temp_audio.mp3''
          ''clip_audio_chunks'' 700 (- 35) ''base'' world_audio))
     (chunk_filename ''clip_audio_chunks'' 1) = Some ''world''"
  using chunk_names by (simp add: segmented_run_remove_refused)

text \<open>
  C5. Let the chunk directory be there, the audio load and split into chunks, and let
  the transcription of the chunk with index \<open>k\<close> raise. Then
  \<^verbatim>\<open>split_and_transcribe_audio\<close> returns \<^verbatim>\<open>None\<close>: no transcript, partial or whole. No
  chunk after that one is announced on line 59, which every exported chunk is; and the
  loop does, from any state, exactly what it does on the first \<open>k + 1\<close> chunks alone.
\<close>

theorem chunk_transcription_error_aborts_run:
  assumes dir: "fst (ensure_output_dir env output_dir w) = None"
    and src: "files w audio_path = Some raw" "from_file env raw = Inr audio"
      "split_on_silence env audio min_silence_len silence_thresh 200 = Inr chunks"
    and k: "k < length chunks"
    and raises: "transcribe env model_name (chunks ! k) = Inl e"
  shows "fst (split_and_transcribe_audio env audio_path output_dir min_silence_len silence_thresh
                model_name w) = Inr None \<and>
         (\<forall>a n f. TranscribingChunk a n f \<in> set (stdout (snd (split_and_transcribe_audio env
                      audio_path output_dir min_silence_len silence_thresh model_name w))) \<longrightarrow>
                   TranscribingChunk a n f \<in> set (stdout w) \<or> a \<le> k + 1) \<and>
         (\<forall>n i full_text w1.
            transcribe_chunks env model_name output_dir n i chunks full_text w1 =
            transcribe_chunks env model_name output_dir n i (take (Suc k) chunks) full_text w1)"
proof -
  let ?run = "split_and_transcribe_audio env audio_path output_dir min_silence_len silence_thresh
                model_name w"
  let ?w0 = "snd (ensure_output_dir env output_dir w)"
  have none_and_bound: "fst ?run = Inr None \<and>
      (\<forall>a n f. TranscribingChunk a n f \<in> set (stdout (snd ?run)) \<longrightarrow>
                TranscribingChunk a n f \<in> set (stdout w) \<or> a \<le> k + 1)"
  proof (cases "load_model env model_name")
    case (Some e')
    from split_and_transcribe_audio_load_fails[OF dir src Some]
    show ?thesis by simp
  next
    case None
    obtain r w1 where loop:
      "transcribe_chunks env model_name output_dir (length chunks) 0 chunks []
         (py_print (LoadingModel model_name) ?w0) = (r, w1)"
      by (cases "transcribe_chunks env model_name output_dir (length chunks) 0 chunks []
                   (py_print (LoadingModel model_name) ?w0)")
    from transcribe_chunks_raises[OF k raises, of output_dir "length chunks" 0 "[]"
        "py_print (LoadingModel model_name) ?w0"] loop
    obtain e' where r: "r = Inl e'" by auto
    from split_and_transcribe_audio_loop[OF dir src None loop] r
    have run: "?run = (Inr None, py_print (SegmentError e') w1)" by simp
    have "TranscribingChunk a n f \<in> set (stdout w) \<or> a \<le> k + 1"
      if "TranscribingChunk a n f \<in> set (stdout (snd ?run))" for a n f
    proof -
      from that run have "TranscribingChunk a n f \<in> set (stdout w1)" by simp
      from transcribe_chunks_stops[OF loop k raises this] show ?thesis by simp
    qed
    with run show ?thesis by simp
  qed
  have "transcribe_chunks env model_name output_dir n i chunks full_text w1 =
        transcribe_chunks env model_name output_dir n i (take (Suc k) chunks) full_text w1"
    for n i full_text w1
  proof -
    have "chunks = take k chunks @ chunks ! k # drop (Suc k) chunks"
      using k by (simp add: id_take_nth_drop)
    moreover have "take (Suc k) chunks = take k chunks @ [chunks ! k]"
      using k by (simp add: take_Suc_conv_app_nth)
    ultimately show ?thesis
      using transcribe_chunks_ignores_rest[OF raises, of output_dir n i "take k chunks"
          "drop (Suc k) chunks" full_text w1]
      by simp
  qed
  with none_and_bound show ?thesis by blast
qed

theorem chunk_transcription_error_aborts_run_witness:
  "fst (ensure_output_dir env_second_chunk_fails ''clip_audio_chunks'' world_audio) = None \<and>
   files world_audio ''clip_temp_audio.mp3'' = Some ''mp3:VIDEO'' \<and>
   from_file env_second_chunk_fails ''mp3:VIDEO'' = Inr ''mp3:VIDEO'' \<and>
   split_on_silence env_second_chunk_fails ''mp3:VIDEO'' 700 (- 35) 200 = Inr [''hello'', ''world''] \<and>
   (1::nat) < length [''hello'', ''world''] \<and>
   transcribe env_second_chunk_fails ''base'' ([''hello'', ''world''] ! 1)
     = Inl (Exception ''RuntimeError'') \<and>
   fst (split_and_transcribe_audio env_second_chunk_fails ''clip_temp_audio.mp3''
          ''clip_audio_chunks'' 700 (- 35) ''base'' world_audio) = Inr None"
proof -
  have h1: "fst (ensure_output_dir env_second_chunk_fails ''clip_audio_chunks'' world_audio) = None"
    by (simp add: ensure_output_dir_def os_makedirs_def os_path_exists_def
        env_second_chunk_fails_def env_ok_def world_audio_def world0_def)
  have h2: "files world_audio ''clip_temp_audio.mp3'' = Some ''mp3:VIDEO''"
    by (simp add: world_audio_def)
  have h3: "from_file env_second_chunk_fails ''mp3:VIDEO'' = Inr ''mp3:VIDEO''"
    by (simp add: env_second_chunk_fails_def env_ok_def)
  have h4: "split_on_silence env_second_chunk_fails ''mp3:VIDEO'' 700 (- 35) 200
            = Inr [''hello'', ''world'']"
    by (simp add: env_second_chunk_fails_def env_ok_def)
  have h5: "(1::nat) < length [''hello'', ''world'']"
    by simp
  have h6: "transcribe env_second_chunk_fails ''base'' ([''hello'', ''world''] ! 1)
            = Inl (Exception ''RuntimeError'')"
    by (simp add: env_second_chunk_fails_def env_ok_def)
  from chunk_transcription_error_aborts_run[OF h1 h2 h3 h4 h5 h6] h1 h2 h3 h4 h5 h6
  show ?thesis by blast
qed

text \<open>
  C6. Whether the removal of chunk files fails has no influence on what
  \<^verbatim>\<open>split_and_transcribe_audio\<close> returns: the value is the same under any other
  behaviour \<open>r\<close> of \<^verbatim>\<open>os.remove\<close>. In a run that returns a transcript, for every chunk
  whose removal is refused with an error \<open>e\<close>, the warning of line 72 with \<open>e\<close> has been
  printed, and every chunk has been transcribed and its text joined into the transcript.
\<close>

theorem chunk_deletion_failure_tolerated:
  "fst (split_and_transcribe_audio (env\<lparr>remove_err := r\<rparr>) audio_path output_dir
          min_silence_len silence_thresh model_name w) =
   fst (split_and_transcribe_audio env audio_path output_dir min_silence_len silence_thresh
          model_name w) \<and>
   (\<forall>t w' raw audio chunks j e.
      split_and_transcribe_audio env audio_path output_dir min_silence_len silence_thresh
        model_name w = (Inr (Some t), w') \<and>
      files w audio_path = Some raw \<and> from_file env raw = Inr audio \<and>
      split_on_silence env audio min_silence_len silence_thresh 200 = Inr chunks \<and>
      j < length chunks \<and> remove_err env (chunk_filename output_dir j) = Some e \<longrightarrow>
      ChunkDeleteWarning e \<in> set (stdout w') \<and>
      (\<exists>texts. map (transcribe env model_name) chunks = map Inr texts \<and>
               t = str_join '' '' texts))"
proof -
  have "ChunkDeleteWarning e \<in> set (stdout w') \<and>
        (\<exists>texts. map (transcribe env model_name) chunks = map Inr texts \<and> t = str_join '' '' texts)"
    if run: "split_and_transcribe_audio env audio_path output_dir min_silence_len silence_thresh
               model_name w = (Inr (Some t), w')"
      and src: "files w audio_path = Some raw" "from_file env raw = Inr audio"
        "split_on_silence env audio min_silence_len silence_thresh 200 = Inr chunks"
      and j: "j < length chunks" "remove_err env (chunk_filename output_dir j) = Some e"
    for t w' raw audio chunks j e
  proof -
    from split_and_transcribe_audio_Some[OF run] src obtain texts where
      loop: "transcribe_chunks env model_name output_dir (length chunks) 0 chunks []
               (py_print (LoadingModel model_name) (snd (ensure_output_dir env output_dir w)))
             = (Inr texts, w')" and
      t: "t = str_join '' '' texts"
      by auto
    from transcribe_chunks_warns[OF loop, of j e] j
    have "ChunkDeleteWarning e \<in> set (stdout w')" by simp
    moreover from transcribe_chunks_texts[OF loop]
    have "map (transcribe env model_name) chunks = map Inr texts" by auto
    ultimately show ?thesis using t by blast
  qed
  with split_and_transcribe_audio_remove_irrelevant show ?thesis
    by blast
qed

theorem chunk_deletion_failure_tolerated_witness:
  "fst (split_and_transcribe_audio (env_remove_refused\<lparr>remove_err := remove_err env_ok\<rparr>)
          ''clip_temp_audio.mp3'' ''clip_audio_chunks'' 700 (- 35) ''base'' world_audio) =
   fst (split_and_transcribe_audio env_remove_refused ''clip_temp_audio.mp3''
          ''clip_audio_chunks'' 700 (- 35) ''base'' world_audio) \<and>
   fst (split_and_transcribe_audio env_remove_refused ''clip_temp_audio.mp3''
          ''clip_audio_chunks'' 700 (- 35) ''base'' world_audio) = Inr (Some ''hello world'') \<and>
   remove_err env_remove_refused (chunk_filename ''clip_audio_chunks'' 0)
     = Some (Exception ''PermissionError'') \<and>
   ChunkDeleteWarning (Exception ''PermissionError'') \<in>
     set (stdout (snd (split_and_transcribe_audio env_remove_refused ''clip_temp_audio.mp3''
                         ''clip_audio_chunks'' 700 (- 35) ''base'' world_audio)))"
proof -
  let ?run = "split_and_transcribe_audio env_remove_refused ''clip_temp_audio.mp3''
                ''clip_audio_chunks'' 700 (- 35) ''base'' world_audio"
  have run: "?run = (Inr (Some ''hello world''), snd ?run)"
    by (simp add: segmented_run_remove_refused)
  have src: "files world_audio ''clip_temp_audio.mp3'' = Some ''mp3:VIDEO''"
    "from_file env_remove_refused ''mp3:VIDEO'' = Inr ''mp3:VIDEO''"
    "split_on_silence env_remove_refused ''mp3:VIDEO'' 700 (- 35) 200 = Inr [''hello'', ''world'']"
    "(0::nat) < length [''hello'', ''world'']"
    "remove_err env_remove_refused (chunk_filename ''clip_audio_chunks'' 0)
       = Some (Exception ''PermissionError'')"
    by (simp_all add: world_audio_def env_remove_refused_def env_ok_def)
  from chunk_deletion_failure_tolerated[where env=env_remove_refused and r="remove_err env_ok"
      and audio_path="''clip_temp_audio.mp3''" and output_dir="''clip_audio_chunks''"
      and min_silence_len=700 and silence_thresh="- 35" and model_name="''base''"
      and w=world_audio]
    run src
  show ?thesis by (metis fst_conv)
qed

text \<open>
  C3 fails on the code. Lines 41 and 42 create the chunk directory before the \<^verbatim>\<open>try\<close> of
  line 44: where nothing exists at \<^verbatim>\<open>clip_audio_chunks\<close> and \<^verbatim>\<open>os.makedirs\<close> raises, the
  exception leaves \<^verbatim>\<open>split_and_transcribe_audio\<close>, and \<^verbatim>\<open>process_video_to_text\<close> with it,
  instead of becoming \<^verbatim>\<open>None\<close>.
\<close>

theorem makedirs_error_escapes:
  "files world_audio ''clip_audio_chunks'' = None \<and> ''clip_audio_chunks'' \<notin> dirs world_audio \<and>
   makedirs_err env_makedirs_refused ''clip_audio_chunks'' = Some (Exception ''PermissionError'') \<and>
   fst (split_and_transcribe_audio env_makedirs_refused ''clip_temp_audio.mp3''
          ''clip_audio_chunks'' 700 (- 35) ''base'' world_audio)
     = Inl (Exception ''PermissionError'') \<and>
   fst (process_video_to_text env_makedirs_refused ''videos/clip.mp4'' ''base'' True world0)
     = Inl (Exception ''PermissionError'')"
  by (simp add: clip_names run_defs env_defs)

section \<open>The orchestrator\<close>

text \<open>
  C7. For every video path at which nothing exists, \<^verbatim>\<open>process_video_to_text\<close> returns
  \<^verbatim>\<open>False\<close>; the files and directories are those of before, and the only thing printed
  is the message of line 98, so that no audio was extracted (an extraction prints the
  message of line 14 or of line 17) and no output or temporary file was created.
\<close>

theorem missing_video_returns_false:
  assumes "\<not> os_path_exists w video_path"
  shows "\<exists>w'. process_video_to_text env video_path model_name use_segmentation w = (Inr False, w') \<and>
              files w' = files w \<and> dirs w' = dirs w \<and>
              stdout w' = stdout w @ [VideoMissing video_path]"
  using assms by (simp add: process_video_to_text_def)

theorem missing_video_returns_false_witness:
  "\<not> os_path_exists world0 ''videos/missing.mp4'' \<and>
   (\<exists>w'. process_video_to_text env_ok ''videos/missing.mp4'' ''base'' True world0 = (Inr False, w') \<and>
         files w' = files world0 \<and> dirs w' = dirs world0 \<and>
         stdout w' = stdout world0 @ [VideoMissing ''videos/missing.mp4''])"
proof -
  have h: "\<not> os_path_exists world0 ''videos/missing.mp4''"
    by (simp add: os_path_exists_def world0_def)
  from h missing_video_returns_false[OF h] show ?thesis by blast
qed

text \<open>
  C1 fails on the code. With a model name that whisper does not know, the audio of
  \<^verbatim>\<open>videos/clip.mp4\<close> is extracted, the transcriber returns \<^verbatim>\<open>None\<close>, and
  \<^verbatim>\<open>process_video_to_text\<close> returns \<^verbatim>\<open>False\<close> on line 145, before the cleanup of lines
  148 to 161: \<^verbatim>\<open>clip_temp_audio.mp3\<close> is still on the disk and, in segmented mode, so is
  the chunk directory. The same holds where the transcription succeeds and the writing
  of \<^verbatim>\<open>clip.txt\<close> is refused (the return of line 142).
\<close>

theorem temp_audio_left_when_model_fails_to_load:
  "load_model env_ok ''huge'' = Some (Exception ''RuntimeError'') \<and>
   fst (extract_step env_ok ''videos/clip.mp4''
          (get_filename_without_extension ''videos/clip.mp4'') world0) = True \<and>
   fst (process_video_to_text env_ok ''videos/clip.mp4'' ''huge'' False world0) = Inr False \<and>
   files (snd (process_video_to_text env_ok ''videos/clip.mp4'' ''huge'' False world0))
     ''clip_temp_audio.mp3'' = Some ''mp3:VIDEO'' \<and>
   fst (process_video_to_text env_ok ''videos/clip.mp4'' ''huge'' True world0) = Inr False \<and>
   files (snd (process_video_to_text env_ok ''videos/clip.mp4'' ''huge'' True world0))
     ''clip_temp_audio.mp3'' = Some ''mp3:VIDEO'' \<and>
   ''clip_audio_chunks'' \<in> dirs (snd (process_video_to_text env_ok ''videos/clip.mp4'' ''huge''
                                         True world0)) \<and>
   fst (process_video_to_text env_txt_refused ''videos/clip.mp4'' ''base'' False world0)
     = Inr False \<and>
   files (snd (process_video_to_text env_txt_refused ''videos/clip.mp4'' ''base'' False world0))
     ''clip_temp_audio.mp3'' = Some ''mp3:VIDEO''"
  by (simp add: clip_names run_defs env_defs)

text \<open>
  C4 as the specification states it fails: the threshold the orchestrator passes,
  \<open>-35\<close>, is not lower than the default \<open>-40\<close>.
\<close>

theorem segmented_threshold_not_lower:
  "\<not> (default_min_silence_len < segmented_min_silence_len \<and>
      segmented_silence_thresh < default_silence_thresh)"
  by (simp add: default_silence_thresh_def segmented_silence_thresh_def)

text \<open>
  C4, as amended. In segmented mode the orchestrator calls the segmenting transcriber
  with a minimum silence length of 700 and a silence threshold of \<open>-35\<close>: the minimum
  silence length is longer than the default 500, and the threshold is higher than the
  default \<open>-40\<close>.
\<close>

theorem segmented_silence_parameters:
  "transcribe_step env video_name model_name True w =
     split_and_transcribe_audio env (audio_file_of video_name) (chunks_dir_of video_name)
       700 (- 35) model_name (py_print UsingSegmentation w) \<and>
   default_min_silence_len = 500 \<and> default_silence_thresh = - 40 \<and>
   default_min_silence_len < segmented_min_silence_len \<and>
   default_silence_thresh < segmented_silence_thresh"
  by (simp add: transcribe_step_def default_min_silence_len_def default_silence_thresh_def
      segmented_min_silence_len_def segmented_silence_thresh_def)

text \<open>
  C8. The name of the output file is the base name of the video path, without its
  extension, followed by \<^verbatim>\<open>.txt\<close>. Whenever \<^verbatim>\<open>process_video_to_text\<close> returns \<^verbatim>\<open>True\<close>,
  the file of that name holds exactly the text the transcriber returned, whatever it
  held before (the file is written, not appended to, and its existence is no error).
  The name does not depend on the extension: for a directory prefix \<open>dir\<close>, a stem
  without separator that is not made of dots only, and an extension without dot and
  separator, the output file of \<open>dir @ stem @ ''.'' @ ext\<close> is \<open>stem @ ''.txt''\<close>.
\<close>

theorem transcript_written_to_basename_txt:
  "text_output_file_of (get_filename_without_extension video_path)
     = fst (os_path_splitext (os_path_basename video_path)) @ ''.txt'' \<and>
   (process_video_to_text env video_path model_name use_segmentation w = (Inr True, w') \<longrightarrow>
      (\<exists>w2 w3 t.
         extract_step env video_path (get_filename_without_extension video_path) w = (True, w2) \<and>
         transcribe_step env (get_filename_without_extension video_path) model_name
           use_segmentation w2 = (Inr (Some t), w3) \<and>
         t \<noteq> [] \<and>
         files w' (text_output_file_of (get_filename_without_extension video_path)) = Some t)) \<and>
   ((dir = [] \<or> last dir = CHR ''/'') \<and> CHR ''/'' \<notin> set stem \<and> (\<exists>c\<in>set stem. c \<noteq> CHR ''.'') \<and>
    CHR ''/'' \<notin> set ext \<and> CHR ''.'' \<notin> set ext \<longrightarrow>
      text_output_file_of (get_filename_without_extension (dir @ stem @ ''.'' @ ext))
        = stem @ ''.txt'')"
proof -
  have a: "text_output_file_of (get_filename_without_extension video_path)
     = fst (os_path_splitext (os_path_basename video_path)) @ ''.txt''"
    by (simp add: text_output_file_of_def get_filename_without_extension_def)
  have b: "\<exists>w2 w3 t.
         extract_step env video_path (get_filename_without_extension video_path) w = (True, w2) \<and>
         transcribe_step env (get_filename_without_extension video_path) model_name
           use_segmentation w2 = (Inr (Some t), w3) \<and>
         t \<noteq> [] \<and>
         files w' (text_output_file_of (get_filename_without_extension video_path)) = Some t"
    if run: "process_video_to_text env video_path model_name use_segmentation w = (Inr True, w')"
  proof -
    from process_video_to_text_True[OF run] obtain w2 w3 transcribed_text where
      s: "extract_step env video_path (get_filename_without_extension video_path) w = (True, w2)"
        "transcribe_step env (get_filename_without_extension video_path) model_name
           use_segmentation w2 = (Inr transcribed_text, w3)"
        "save_and_cleanup env (get_filename_without_extension video_path) use_segmentation
           transcribed_text w3 = (True, w')"
      by blast
    from save_and_cleanup_True[OF s(3)] s(1,2) show ?thesis by blast
  qed
  have c: "text_output_file_of (get_filename_without_extension (dir @ stem @ ''.'' @ ext))
        = stem @ ''.txt''"
    if "dir = [] \<or> last dir = CHR ''/''" "CHR ''/'' \<notin> set stem" "\<exists>c\<in>set stem. c \<noteq> CHR ''.''"
      "CHR ''/'' \<notin> set ext" "CHR ''.'' \<notin> set ext"
    using get_filename_without_extension_stem[OF that(1,2,4,5,3)]
    by (simp add: text_output_file_of_def)
  from a b c show ?thesis by blast
qed

theorem transcript_written_to_basename_txt_witness:
  "files world0 ''clip.txt'' = Some ''old text'' \<and>
   fst (process_video_to_text env_ok ''videos/clip.mp4'' ''base'' False world0) = Inr True \<and>
   (\<exists>t. t \<noteq> [] \<and>
        files (snd (process_video_to_text env_ok ''videos/clip.mp4'' ''base'' False world0))
          (text_output_file_of (get_filename_without_extension ''videos/clip.mp4'')) = Some t) \<and>
   text_output_file_of (get_filename_without_extension ''videos/clip.mp4'') = ''clip.txt'' \<and>
   text_output_file_of (get_filename_without_extension ''videos/clip.mov'') = ''clip.txt''"
proof -
  let ?run = "process_video_to_text env_ok ''videos/clip.mp4'' ''base'' False world0"
  have run: "?run = (Inr True, snd ?run)"
    using direct_run_ok(1) by (simp add: prod_eq_iff)
  have old: "files world0 ''clip.txt'' = Some ''old text''"
    by (simp add: world0_def)
  note inst = transcript_written_to_basename_txt[where env=env_ok and video_path="''videos/clip.mp4''"
      and model_name="''base''" and use_segmentation=False and w=world0 and w'="snd ?run"
      and dir="''videos/''" and stem="''clip''"]
  from inst[of "''mp4''"] run
  have written: "\<exists>t. t \<noteq> [] \<and>
        files (snd ?run) (text_output_file_of (get_filename_without_extension ''videos/clip.mp4''))
          = Some t"
    by blast
  have "text_output_file_of (get_filename_without_extension (''videos/'' @ ''clip'' @ ''.'' @ ''mp4''))
        = ''clip'' @ ''.txt''"
    by (rule inst[of "''mp4''", THEN conjunct2, THEN conjunct2, THEN mp]) simp
  then have mp4: "text_output_file_of (get_filename_without_extension ''videos/clip.mp4'')
                  = ''clip.txt''"
    by simp
  have "text_output_file_of (get_filename_without_extension (''videos/'' @ ''clip'' @ ''.'' @ ''mov''))
        = ''clip'' @ ''.txt''"
    by (rule inst[of "''mov''", THEN conjunct2, THEN conjunct2, THEN mp]) simp
  then have mov: "text_output_file_of (get_filename_without_extension ''videos/clip.mov'')
                  = ''clip.txt''"
    by simp
  from old direct_run_ok(1) written mp4 mov show ?thesis by blast
qed

text \<open>
  C9. Let the video exist and its audio be extracted, and let the transcriber return
  the empty string without an error (or \<^verbatim>\<open>None\<close>: the two are treated alike). Then
  \<^verbatim>\<open>process_video_to_text\<close> returns \<^verbatim>\<open>False\<close> in the state the transcriber left, with
  only the message of line 144 printed: the cleanup is skipped, the temporary audio
  file is still on the disk, and the output text file is as it was before the run.
\<close>

theorem empty_transcript_treated_as_failure:
  assumes ex: "os_path_exists w video_path"
    and extr: "extract_step env video_path (get_filename_without_extension video_path) w = (True, w2)"
    and tr: "transcribe_step env (get_filename_without_extension video_path) model_name
               use_segmentation w2 = (Inr transcribed_text, w3)"
    and empty: "transcribed_text = Some [] \<or> transcribed_text = None"
  shows "process_video_to_text env video_path model_name use_segmentation w
           = (Inr False, py_print TranscriptionFailed w3) \<and>
         files w3 (audio_file_of (get_filename_without_extension video_path)) \<noteq> None \<and>
         files w3 (text_output_file_of (get_filename_without_extension video_path))
           = files w (text_output_file_of (get_filename_without_extension video_path))"
proof -
  let ?name = "get_filename_without_extension video_path"
  from empty have "save_and_cleanup env ?name use_segmentation transcribed_text w3
                   = (False, py_print TranscriptionFailed w3)"
    by (auto simp: save_and_cleanup_def)
  with ex extr tr have run: "process_video_to_text env video_path model_name use_segmentation w
           = (Inr False, py_print TranscriptionFailed w3)"
    by (simp add: process_video_to_text_def)
  have w3: "files w3 q = files w2 q" if "\<not> is_under (chunks_dir_of ?name) q" for q
    using transcribe_step_files_frame[OF that, of env model_name use_segmentation w2] tr by simp
  from extract_step_True[OF extr] have "files w2 (audio_file_of ?name) \<noteq> None"
    by auto
  with w3[OF artifact_names_apart(2)] have audio: "files w3 (audio_file_of ?name) \<noteq> None"
    by simp
  have "files w2 (text_output_file_of ?name) = files w (text_output_file_of ?name)"
    using extract_step_frame(1)[of "text_output_file_of ?name" ?name env video_path w] extr
      artifact_names_apart(1)[of ?name]
    by simp
  with w3[OF artifact_names_apart(3)]
  have "files w3 (text_output_file_of ?name) = files w (text_output_file_of ?name)"
    by simp
  with run audio show ?thesis by blast
qed

theorem empty_transcript_treated_as_failure_witness:
  "os_path_exists world0 ''videos/clip.mp4'' \<and>
   fst (extract_step env_no_chunks ''videos/clip.mp4''
          (get_filename_without_extension ''videos/clip.mp4'') world0) = True \<and>
   fst (transcribe_step env_no_chunks (get_filename_without_extension ''videos/clip.mp4'') ''base''
          True (snd (extract_step env_no_chunks ''videos/clip.mp4''
                       (get_filename_without_extension ''videos/clip.mp4'') world0)))
     = Inr (Some []) \<and>
   fst (process_video_to_text env_no_chunks ''videos/clip.mp4'' ''base'' True world0) = Inr False \<and>
   files (snd (process_video_to_text env_no_chunks ''videos/clip.mp4'' ''base'' True world0))
     ''clip_temp_audio.mp3'' \<noteq> None \<and>
   files (snd (process_video_to_text env_no_chunks ''videos/clip.mp4'' ''base'' True world0))
     ''clip.txt'' = Some ''old text''"
proof -
  let ?w2 = "snd (extract_step env_no_chunks ''videos/clip.mp4''
                    (get_filename_without_extension ''videos/clip.mp4'') world0)"
  let ?w3 = "snd (transcribe_step env_no_chunks (get_filename_without_extension ''videos/clip.mp4'')
                    ''base'' True ?w2)"
  have h1: "os_path_exists world0 ''videos/clip.mp4''"
    by (simp add: os_path_exists_def world0_def)
  have h2: "extract_step env_no_chunks ''videos/clip.mp4''
              (get_filename_without_extension ''videos/clip.mp4'') world0 = (True, ?w2)"
    using no_chunks_run(1) by (simp add: prod_eq_iff clip_names)
  have h3: "transcribe_step env_no_chunks (get_filename_without_extension ''videos/clip.mp4'')
              ''base'' True ?w2 = (Inr (Some []), ?w3)"
    using no_chunks_run(2) by (simp add: prod_eq_iff clip_names)
  have h4: "Some [] = Some ([]::string) \<or> Some [] = (None::string option)"
    by simp
  have old: "files world0 ''clip.txt'' = Some ''old text''"
    by (simp add: world0_def)
  note run = empty_transcript_treated_as_failure[OF h1 h2 h3 h4]
  from run have "fst (process_video_to_text env_no_chunks ''videos/clip.mp4'' ''base'' True world0)
                 = Inr False"
    by simp
  moreover from run
  have "files (snd (process_video_to_text env_no_chunks ''videos/clip.mp4'' ''base'' True world0))
          ''clip_temp_audio.mp3'' \<noteq> None"
    by (simp add: clip_names audio_file_of_def)
  moreover from run old
  have "files (snd (process_video_to_text env_no_chunks ''videos/clip.mp4'' ''base'' True world0))
          ''clip.txt'' = Some ''old text''"
    by (simp add: clip_names text_output_file_of_def)
  moreover from h2 have "fst (extract_step env_no_chunks ''videos/clip.mp4''
          (get_filename_without_extension ''videos/clip.mp4'') world0) = True"
    by (metis fst_conv)
  moreover from h3
  have "fst (transcribe_step env_no_chunks (get_filename_without_extension ''videos/clip.mp4'')
               ''base'' True ?w2) = Inr (Some [])"
    by (metis fst_conv)
  ultimately show ?thesis
    using h1 by blast
qed

text \<open>
  C10. The names of the temporary audio file, of the output text file and of the chunk
  directory contain no separator: they are bare file names, whatever directories the
  video path has. A run of \<^verbatim>\<open>process_video_to_text\<close> changes no file other than these
  two and the files under the chunk directory, and no directory other than the chunk
  directory and those under it: everything is created relative to the working
  directory, nothing next to the video.
\<close>

theorem artifacts_in_working_directory:
  "CHR ''/'' \<notin> set (audio_file_of (get_filename_without_extension video_path)) \<and>
   CHR ''/'' \<notin> set (text_output_file_of (get_filename_without_extension video_path)) \<and>
   CHR ''/'' \<notin> set (chunks_dir_of (get_filename_without_extension video_path)) \<and>
   (\<forall>q. files (snd (process_video_to_text env video_path model_name use_segmentation w)) q
          \<noteq> files w q \<longrightarrow>
        q = audio_file_of (get_filename_without_extension video_path) \<or>
        q = text_output_file_of (get_filename_without_extension video_path) \<or>
        is_under (chunks_dir_of (get_filename_without_extension video_path)) q) \<and>
   (\<forall>d. (d \<in> dirs (snd (process_video_to_text env video_path model_name use_segmentation w)))
          \<noteq> (d \<in> dirs w) \<longrightarrow>
        d = chunks_dir_of (get_filename_without_extension video_path) \<or>
        is_under (chunks_dir_of (get_filename_without_extension video_path)) d)"
proof -
  have "CHR ''/'' \<notin> set (audio_file_of (get_filename_without_extension video_path))"
    "CHR ''/'' \<notin> set (text_output_file_of (get_filename_without_extension video_path))"
    "CHR ''/'' \<notin> set (chunks_dir_of (get_filename_without_extension video_path))"
    using get_filename_without_extension_no_sep[of video_path]
    by (simp_all add: audio_file_of_def text_output_file_of_def chunks_dir_of_def)
  moreover have "q = audio_file_of (get_filename_without_extension video_path) \<or>
        q = text_output_file_of (get_filename_without_extension video_path) \<or>
        is_under (chunks_dir_of (get_filename_without_extension video_path)) q"
    if "files (snd (process_video_to_text env video_path model_name use_segmentation w)) q
          \<noteq> files w q" for q
    using that process_video_to_text_files_frame[of q video_path env model_name use_segmentation w]
    by blast
  moreover have "d = chunks_dir_of (get_filename_without_extension video_path) \<or>
        is_under (chunks_dir_of (get_filename_without_extension video_path)) d"
    if "(d \<in> dirs (snd (process_video_to_text env video_path model_name use_segmentation w)))
          \<noteq> (d \<in> dirs w)" for d
    using that process_video_to_text_dirs_frame[of d video_path env model_name use_segmentation w]
    by blast
  ultimately show ?thesis by blast
qed

theorem artifacts_in_working_directory_witness:
  "files (snd (process_video_to_text env_ok ''videos/clip.mp4'' ''base'' True world0)) ''clip.txt''
     \<noteq> files world0 ''clip.txt'' \<and>
   (''clip.txt'' = audio_file_of (get_filename_without_extension ''videos/clip.mp4'') \<or>
    ''clip.txt'' = text_output_file_of (get_filename_without_extension ''videos/clip.mp4'') \<or>
    is_under (chunks_dir_of (get_filename_without_extension ''videos/clip.mp4'')) ''clip.txt'') \<and>
   CHR ''/'' \<notin> set (audio_file_of (get_filename_without_extension ''videos/clip.mp4''))"
proof -
  have "files world0 ''clip.txt'' = Some ''old text''"
    by (simp add: world0_def)
  with segmented_full_run_ok
  have changed: "files (snd (process_video_to_text env_ok ''videos/clip.mp4'' ''base'' True world0))
                   ''clip.txt'' \<noteq> files world0 ''clip.txt''"
    by simp
  from artifacts_in_working_directory[of "''videos/clip.mp4''" env_ok "''base''" True world0]
    changed
  show ?thesis by blast
qed

end
